theory Spec2Isabelle
  imports Main
begin

section \<open>Data model\<close>

text \<open>
  The scoreboard keeps one \<open>PersistedPayload\<close>: the game state, the two player lists, the
  action log and a time stamp. The records below follow \<open>types.ts\<close> (in \<open>src\<close> the
  interfaces \<open>TeamState\<close>, \<open>ScoreboardState\<close>, \<open>PlayerState\<close> and \<open>PersistedPayload\<close> at
  the end of \<open>TeamStatsMode.tsx\<close>); the actions follow the type \<open>ScoreboardAction\<close>. A JavaScript
  \<open>number\<close> is modelled as an \<open>int\<close>: every number the user interface dispatches is an
  integer and the reducer only adds, subtracts, multiplies and compares them. A field that
  may be \<open>null\<close> or absent is an \<open>option\<close>. Field names are those of the source; \<open>name\<close>
  of a team is \<open>name_t\<close>, \<open>id\<close> of a player is \<open>id_p\<close>, and the fields of the two
  highlight objects that share a name carry a suffix.
\<close>

datatype TeamKey = A | B

datatype TimingMode = NBA | FIBA

datatype OverlayMode = Timeout | Halftime

datatype Metric = Rebounds | FastBreakPoints

datatype Stat = Reb | Ast | Stl | Blk | Fls

record TeamState =
  name_t :: string
  score :: int
  fouls :: int
  timeouts :: int
  fastBreakPoints :: int
  color :: string
  logoUrl :: string

record StarPlayer =
  team_sp :: TeamKey
  playerId :: string
  remainingSeconds :: int
  reason :: "string option"
  auto_sp :: "bool option"

record TeamComparison =
  metric :: Metric
  teamAValue :: int
  teamBValue :: int
  leadingTeam :: "TeamKey option"
  remainingSeconds_tc :: int

record ScoreboardState =
  teamA :: TeamState
  teamB :: TeamState
  possession :: TeamKey
  quarter :: int
  totalQuarters :: int
  quarterLengthMinutes :: int
  foulLimit :: int
  gameClockSeconds :: int
  shotClockDefault :: int
  shotClockSeconds :: int
  gameClockRunning :: bool
  shotClockRunning :: bool
  timingMode :: TimingMode
  shotViolation :: bool
  gameFinal :: bool
  overlayMode :: "OverlayMode option"
  overlayLabel :: string
  overlayRemainingSeconds :: int
  overlayResumeGame :: bool
  tvAutoCooldownSeconds :: int
  tvAutoSeen :: "string list"
  tvStarPlayer :: "StarPlayer option"
  tvTeamComparison :: "TeamComparison option"

record PlayerState =
  id_p :: string
  number :: int
  name :: string
  imageUrl :: "string option"
  pts :: int
  reb :: int
  ast :: int
  stl :: int
  blk :: int
  tpm :: int
  fls :: int
  secondsPlayed :: int
  onCourt :: bool
  fouledOut :: bool

record Players =
  players_A :: "PlayerState list"
  players_B :: "PlayerState list"

record PersistedPayload =
  state :: ScoreboardState
  players :: Players
  actionLog :: "string list"
  updatedAt :: int

subsection \<open>Actions\<close>

record LoadGamePlayerInput =
  name_in :: string
  number_in :: int
  imageUrl_in :: "string option"

record LoadGameTeamInput =
  name_lg :: string
  color_lg :: "string option"
  logoUrl_lg :: "string option"
  players_lg :: "LoadGamePlayerInput list"

record LoadGameRulesInput =
  quarterLengthMinutes_lg :: "int option"
  totalQuarters_lg :: "int option"
  shotClockDefault_lg :: "int option"
  foulLimit_lg :: "int option"
  timingMode_lg :: "TimingMode option"

record PlayerUpdates =
  name_upd :: "string option"
  number_upd :: "int option"
  onCourt_upd :: "bool option"

datatype ScoreboardAction =
    ADD_POINTS TeamKey int "string option"
  | ADD_FAST_BREAK_POINTS TeamKey int
  | SET_TEAM_NAME TeamKey string
  | SET_TEAM_COLOR TeamKey string
  | SET_TEAM_LOGO TeamKey string
  | LOAD_GAME LoadGameTeamInput LoadGameTeamInput "LoadGameRulesInput option"
  | SET_POSSESSION TeamKey
  | START_GAME
  | STOP_GAME
  | FINISH_GAME
  | START_SHOT
  | STOP_SHOT
  | RESET_QUARTER
  | PREV_QUARTER
  | NEXT_QUARTER
  | RESET_SHOT int
  | INC_FOUL TeamKey
  | USE_TIMEOUT TeamKey
  | OPEN_TIMEOUT TeamKey int
  | START_HALFTIME int
  | END_OVERLAY "bool option"
  | SHOW_TV_STAR_PLAYER TeamKey string
  | DISMISS_TV_STAR_PLAYER
  | INC_PLAYER_STAT TeamKey string Stat "int option"
  | SET_PLAYER_ON_COURT TeamKey string bool
  | SUBSTITUTE_PLAYER TeamKey string string
  | ADD_PLAYER TeamKey string int bool
  | UPDATE_PLAYER TeamKey string PlayerUpdates
  | DELETE_PLAYER TeamKey string
  | ADD_LOG string
  | TICK
  | HYDRATE PersistedPayload

section \<open>Text helpers\<close>

text \<open>
  Template strings print numbers in decimal. \<open>show_int\<close> is the decimal numeral of an
  integer, \<open>js_rem\<close> is JavaScript's \<open>%\<close> (the sign follows the dividend), \<open>padStart2\<close>
  is \<open>padStart(2, "0")\<close> and \<open>toUpperCase\<close> maps the ASCII letters \<open>a\<close> to \<open>z\<close>. The
  source's \<open>String.toUpperCase\<close> also maps letters outside ASCII, which the model leaves as
  they are; the function is used for \<open>overlayLabel\<close> only, and no statement below reads
  that field.
\<close>

definition digit_char :: "nat \<Rightarrow> char" where
  "digit_char d =
     (if d = 0 then CHR ''0'' else if d = 1 then CHR ''1'' else if d = 2 then CHR ''2''
      else if d = 3 then CHR ''3'' else if d = 4 then CHR ''4'' else if d = 5 then CHR ''5''
      else if d = 6 then CHR ''6'' else if d = 7 then CHR ''7'' else if d = 8 then CHR ''8''
      else CHR ''9'')"

fun show_nat :: "nat \<Rightarrow> string" where
  "show_nat n = (if n < 10 then [digit_char n] else show_nat (n div 10) @ [digit_char (n mod 10)])"

declare show_nat.simps [simp del]

definition show_int :: "int \<Rightarrow> string" where
  "show_int i = (if i < 0 then CHR ''-'' # show_nat (nat (- i)) else show_nat (nat i))"

definition js_rem :: "int \<Rightarrow> int \<Rightarrow> int" where
  "js_rem a b = sgn a * (\<bar>a\<bar> mod \<bar>b\<bar>)"

definition padStart2 :: "string \<Rightarrow> string" where
  "padStart2 s = (if length s < 2 then replicate (2 - length s) CHR ''0'' @ s else s)"

definition formatClock :: "int \<Rightarrow> string" where
  "formatClock totalSeconds =
     (let m = totalSeconds div 60; s = js_rem totalSeconds 60
      in show_int m @ '':'' @ padStart2 (show_int s))"

definition upper_char :: "char \<Rightarrow> char" where
  "upper_char c =
     (let n = (of_char c :: nat) in if 97 \<le> n \<and> n \<le> 122 then char_of (n - 32) else c)"

definition toUpperCase :: "string \<Rightarrow> string" where
  "toUpperCase s = map upper_char s"

definition team_str :: "TeamKey \<Rightarrow> string" where
  "team_str t = (case t of A \<Rightarrow> ''A'' | B \<Rightarrow> ''B'')"

definition other_team :: "TeamKey \<Rightarrow> TeamKey" where
  "other_team t = (case t of A \<Rightarrow> B | B \<Rightarrow> A)"

section \<open>Access by team key\<close>

text \<open>
  \<open>teamStateKey\<close> selects \<open>teamA\<close> or \<open>teamB\<close>; \<open>state[teamKey]\<close> and
  \<open>players[team]\<close> read the selected field and a spread with a computed key replaces it.
\<close>

definition get_team :: "TeamKey \<Rightarrow> ScoreboardState \<Rightarrow> TeamState" where
  "get_team t s = (case t of A \<Rightarrow> teamA s | B \<Rightarrow> teamB s)"

definition set_team :: "TeamKey \<Rightarrow> TeamState \<Rightarrow> ScoreboardState \<Rightarrow> ScoreboardState" where
  "set_team t v s = (case t of A \<Rightarrow> s\<lparr>teamA := v\<rparr> | B \<Rightarrow> s\<lparr>teamB := v\<rparr>)"

definition team_players :: "TeamKey \<Rightarrow> PersistedPayload \<Rightarrow> PlayerState list" where
  "team_players t p = (case t of A \<Rightarrow> players_A (players p) | B \<Rightarrow> players_B (players p))"

definition set_team_players :: "TeamKey \<Rightarrow> PlayerState list \<Rightarrow> PersistedPayload \<Rightarrow> PersistedPayload" where
  "set_team_players t v p =
     (case t of A \<Rightarrow> p\<lparr>players := (players p)\<lparr>players_A := v\<rparr>\<rparr>
              | B \<Rightarrow> p\<lparr>players := (players p)\<lparr>players_B := v\<rparr>\<rparr>)"

definition stat_get :: "Stat \<Rightarrow> PlayerState \<Rightarrow> int" where
  "stat_get st p = (case st of Reb \<Rightarrow> reb p | Ast \<Rightarrow> ast p | Stl \<Rightarrow> stl p | Blk \<Rightarrow> blk p | Fls \<Rightarrow> fls p)"

definition stat_set :: "Stat \<Rightarrow> int \<Rightarrow> PlayerState \<Rightarrow> PlayerState" where
  "stat_set st v p =
     (case st of Reb \<Rightarrow> p\<lparr>reb := v\<rparr> | Ast \<Rightarrow> p\<lparr>ast := v\<rparr> | Stl \<Rightarrow> p\<lparr>stl := v\<rparr>
               | Blk \<Rightarrow> p\<lparr>blk := v\<rparr> | Fls \<Rightarrow> p\<lparr>fls := v\<rparr>)"

definition stat_upper :: "Stat \<Rightarrow> string" where
  "stat_upper st =
     (case st of Reb \<Rightarrow> ''REB'' | Ast \<Rightarrow> ''AST'' | Stl \<Rightarrow> ''STL'' | Blk \<Rightarrow> ''BLK'' | Fls \<Rightarrow> ''FLS'')"

section \<open>Defaults (constants.ts)\<close>

text \<open>
  \<open>Date.now()\<close> is an input of the model: every function that reads the clock takes the
  reading as its argument \<open>now\<close>.
\<close>

definition DEFAULT_PLAYERS_A :: "(int \<times> string) list" where
  "DEFAULT_PLAYERS_A =
     [(1, ''Player A1''), (3, ''Player A2''), (5, ''Player A3''), (7, ''Player A4''),
      (9, ''Player A5''), (11, ''Player A6''), (13, ''Player A7'')]"

definition DEFAULT_PLAYERS_B :: "(int \<times> string) list" where
  "DEFAULT_PLAYERS_B =
     [(2, ''Player B1''), (4, ''Player B2''), (6, ''Player B3''), (8, ''Player B4''),
      (10, ''Player B5''), (12, ''Player B6''), (14, ''Player B7'')]"

fun createPlayerStateFrom :: "int \<Rightarrow> TeamKey \<Rightarrow> nat \<Rightarrow> (int \<times> string) list \<Rightarrow> PlayerState list" where
  "createPlayerStateFrom now teamKey idx [] = []"
| "createPlayerStateFrom now teamKey idx ((num, nm) # rest) =
     \<lparr>id_p = team_str teamKey @ ''-'' @ show_nat idx @ ''-'' @ show_int now,
      number = num, name = nm, imageUrl = None,
      pts = 0, reb = 0, ast = 0, stl = 0, blk = 0, tpm = 0, fls = 0, secondsPlayed = 0,
      onCourt = (idx < 5), fouledOut = False\<rparr>
     # createPlayerStateFrom now teamKey (idx + 1) rest"

definition createPlayerState :: "int \<Rightarrow> (int \<times> string) list \<Rightarrow> TeamKey \<Rightarrow> PlayerState list" where
  "createPlayerState now ps teamKey = createPlayerStateFrom now teamKey 0 ps"

definition defaultState :: ScoreboardState where
  "defaultState =
     \<lparr>teamA = \<lparr>name_t = ''Home'', score = 0, fouls = 0, timeouts = 3, fastBreakPoints = 0,
               color = ''#FFB347'', logoUrl = ''''\<rparr>,
      teamB = \<lparr>name_t = ''Away'', score = 0, fouls = 0, timeouts = 3, fastBreakPoints = 0,
               color = ''#7EC4CF'', logoUrl = ''''\<rparr>,
      possession = A,
      quarter = 1,
      totalQuarters = 4,
      quarterLengthMinutes = 10,
      foulLimit = 5,
      gameClockSeconds = 10 * 60,
      shotClockDefault = 24,
      shotClockSeconds = 24,
      gameClockRunning = False,
      shotClockRunning = False,
      timingMode = NBA,
      shotViolation = False,
      gameFinal = False,
      overlayMode = None,
      overlayLabel = '''',
      overlayRemainingSeconds = 0,
      overlayResumeGame = False,
      tvAutoCooldownSeconds = 0,
      tvAutoSeen = [],
      tvStarPlayer = None,
      tvTeamComparison = None\<rparr>"

definition defaultPayload :: "int \<Rightarrow> PersistedPayload" where
  "defaultPayload now =
     \<lparr>state = defaultState,
      players = \<lparr>players_A = createPlayerState now DEFAULT_PLAYERS_A A,
                 players_B = createPlayerState now DEFAULT_PLAYERS_B B\<rparr>,
      actionLog = [],
      updatedAt = now\<rparr>"

section \<open>Helpers of the reducer (useScoreboardStore.ts, in \<open>src\<close> the second part of App.tsx)\<close>

text \<open>
  \<open>players.map((p, idx) => ...)\<close> is a recursion over the list that carries the index.
\<close>

fun buildLivePlayersFrom :: "int \<Rightarrow> TeamKey \<Rightarrow> nat \<Rightarrow> LoadGamePlayerInput list \<Rightarrow> PlayerState list" where
  "buildLivePlayersFrom now t idx [] = []"
| "buildLivePlayersFrom now t idx (p # rest) =
     \<lparr>id_p = team_str t @ ''-'' @ show_int now @ ''-'' @ show_nat idx,
      number = number_in p, name = name_in p,
      imageUrl = Some (case imageUrl_in p of Some u \<Rightarrow> u | None \<Rightarrow> []),
      pts = 0, reb = 0, ast = 0, stl = 0, blk = 0, tpm = 0, fls = 0, secondsPlayed = 0,
      onCourt = (idx < 5), fouledOut = False\<rparr>
     # buildLivePlayersFrom now t (idx + 1) rest"

definition buildLivePlayers :: "int \<Rightarrow> TeamKey \<Rightarrow> LoadGamePlayerInput list \<Rightarrow> PlayerState list" where
  "buildLivePlayers now t ps =
     (let safe = (if length ps \<noteq> 0 then ps
                  else [\<lparr>name_in = ''Player '' @ team_str t @ ''1'', number_in = 1, imageUrl_in = None\<rparr>,
                        \<lparr>name_in = ''Player '' @ team_str t @ ''2'', number_in = 2, imageUrl_in = None\<rparr>,
                        \<lparr>name_in = ''Player '' @ team_str t @ ''3'', number_in = 3, imageUrl_in = None\<rparr>,
                        \<lparr>name_in = ''Player '' @ team_str t @ ''4'', number_in = 4, imageUrl_in = None\<rparr>,
                        \<lparr>name_in = ''Player '' @ team_str t @ ''5'', number_in = 5, imageUrl_in = None\<rparr>])
      in buildLivePlayersFrom now t 0 safe)"

definition withActionLog :: "PersistedPayload \<Rightarrow> string \<Rightarrow> PersistedPayload" where
  "withActionLog p text =
     (let ts = ''[Q'' @ show_int (quarter (state p)) @ '' - ''
               @ formatClock (gameClockSeconds (state p)) @ '']''
      in p\<lparr>actionLog := take 250 ((ts @ '' '' @ text) # actionLog p)\<rparr>)"

definition recalcTeamFouls :: "PersistedPayload \<Rightarrow> TeamKey \<Rightarrow> PersistedPayload" where
  "recalcTeamFouls p t =
     (let total = foldl (\<lambda>sum pl. sum + (if fls pl \<noteq> 0 then fls pl else 0)) 0 (team_players t p)
      in p\<lparr>state := set_team t ((get_team t (state p))\<lparr>fouls := total\<rparr>) (state p)\<rparr>)"

definition HIGHLIGHT_COOLDOWN_SECONDS :: int where
  "HIGHLIGHT_COOLDOWN_SECONDS = 22"

definition PLAYER_HIGHLIGHT_SECONDS :: int where
  "PLAYER_HIGHLIGHT_SECONDS = 10"

definition TEAM_HIGHLIGHT_SECONDS :: int where
  "TEAM_HIGHLIGHT_SECONDS = 10"

definition POINTS_MILESTONES :: "int list" where
  "POINTS_MILESTONES = [10, 15, 20, 25, 30, 35, 40]"

definition REB_MILESTONES :: "int list" where
  "REB_MILESTONES = [8, 10, 12, 15, 18, 20]"

definition STL_MILESTONES :: "int list" where
  "STL_MILESTONES = [3, 4, 5, 6]"

definition BLK_MILESTONES :: "int list" where
  "BLK_MILESTONES = [3, 4, 5, 6]"

definition TPM_MILESTONES :: "int list" where
  "TPM_MILESTONES = [3, 4, 5, 6, 7, 8]"

definition highestMilestone :: "int \<Rightarrow> int list \<Rightarrow> int" where
  "highestMilestone v milestones = foldl (\<lambda>result m. if v \<ge> m then m else result) 0 milestones"

definition allPlayers :: "PersistedPayload \<Rightarrow> PlayerState list" where
  "allPlayers p = players_A (players p) @ players_B (players p)"

definition canAutoHighlight :: "PersistedPayload \<Rightarrow> bool" where
  "canAutoHighlight p =
     (tvStarPlayer (state p) = None \<and> tvTeamComparison (state p) = None
      \<and> tvAutoCooldownSeconds (state p) \<le> 0)"

definition markSeen :: "ScoreboardState \<Rightarrow> string \<Rightarrow> ScoreboardState" where
  "markSeen s key = s\<lparr>tvAutoSeen := take 400 (key # filter (\<lambda>item. item \<noteq> key) (tvAutoSeen s))\<rparr>"

definition showAutoPlayerHighlight ::
  "PersistedPayload \<Rightarrow> TeamKey \<Rightarrow> string \<Rightarrow> string \<Rightarrow> string \<Rightarrow> PersistedPayload" where
  "showAutoPlayerHighlight p t pid rsn key =
     (if \<not> canAutoHighlight p then p
      else if key \<in> set (tvAutoSeen (state p)) then p
      else case find (\<lambda>q. id_p q = pid) (team_players t p) of
             None \<Rightarrow> p
           | Some player \<Rightarrow>
               (let teamName = (if t = A then name_t (teamA (state p)) else name_t (teamB (state p)))
                in withActionLog
                     (p\<lparr>state := (markSeen (state p) key)
                          \<lparr>tvAutoCooldownSeconds := HIGHLIGHT_COOLDOWN_SECONDS,
                           tvStarPlayer := Some \<lparr>team_sp = t, playerId = pid,
                                                 remainingSeconds = PLAYER_HIGHLIGHT_SECONDS,
                                                 reason = Some rsn, auto_sp = Some True\<rparr>,
                           tvTeamComparison := None\<rparr>\<rparr>)
                     (''TV Auto Highlight: '' @ name player @ '' #'' @ show_int (number player)
                      @ '' ('' @ teamName @ '') - '' @ rsn)))"

definition totalTeamRebounds :: "PersistedPayload \<Rightarrow> TeamKey \<Rightarrow> int" where
  "totalTeamRebounds p t = foldl (\<lambda>sum q. sum + reb q) 0 (team_players t p)"

text \<open>
  \<open>maybeAutoTeamComparison\<close> has two blocks, rebounds and then fast-break points; each
  returns the same kind of payload (\<open>showTeamComparison\<close>) when it fires, and the rebound
  block falls through to the fast-break block (\<open>fastBreakStep\<close>) when it does not.
\<close>

definition showTeamComparison ::
  "PersistedPayload \<Rightarrow> string \<Rightarrow> Metric \<Rightarrow> int \<Rightarrow> int \<Rightarrow> TeamKey \<Rightarrow> string \<Rightarrow> PersistedPayload" where
  "showTeamComparison p key m va vb leader text =
     withActionLog
       (p\<lparr>state := (markSeen (state p) key)
            \<lparr>tvAutoCooldownSeconds := HIGHLIGHT_COOLDOWN_SECONDS,
             tvStarPlayer := None,
             tvTeamComparison := Some \<lparr>metric = m, teamAValue = va, teamBValue = vb,
                                       leadingTeam = Some leader,
                                       remainingSeconds_tc = TEAM_HIGHLIGHT_SECONDS\<rparr>\<rparr>\<rparr>)
       text"

definition leader_of :: "int \<Rightarrow> int \<Rightarrow> TeamKey option" where
  "leader_of a b = (if a = b then None else if a > b then Some A else Some B)"

definition fastBreakStep :: "PersistedPayload \<Rightarrow> PersistedPayload" where
  "fastBreakStep p =
     (let fbA = fastBreakPoints (teamA (state p));
          fbB = fastBreakPoints (teamB (state p));
          fbDiff = \<bar>fbA - fbB\<bar>
      in case leader_of fbA fbB of
           None \<Rightarrow> p
         | Some fbLeader \<Rightarrow>
             if fbDiff \<ge> 4 \<and> fbA + fbB \<ge> 8 then
               (let bucket = (fbDiff div 2) * 2;
                    key = ''team:fastBreakPoints:'' @ team_str fbLeader @ '':'' @ show_int bucket
                in if key \<notin> set (tvAutoSeen (state p)) then
                     (let leaderName = (if fbLeader = A then name_t (teamA (state p))
                                        else name_t (teamB (state p)))
                      in showTeamComparison p key FastBreakPoints fbA fbB fbLeader
                           (''TV Auto Team Comparison: Fast break edge for '' @ leaderName))
                   else p)
             else p)"

definition maybeAutoTeamComparison :: "PersistedPayload \<Rightarrow> PersistedPayload" where
  "maybeAutoTeamComparison p =
     (if \<not> canAutoHighlight p then p
      else
        (let rebA = totalTeamRebounds p A;
             rebB = totalTeamRebounds p B;
             rebDiff = \<bar>rebA - rebB\<bar>
         in case leader_of rebA rebB of
              None \<Rightarrow> fastBreakStep p
            | Some rebLeader \<Rightarrow>
                if rebDiff \<ge> 6 \<and> rebA + rebB \<ge> 18 then
                  (let bucket = (rebDiff div 3) * 3;
                       key = ''team:rebounds:'' @ team_str rebLeader @ '':'' @ show_int bucket
                   in if key \<notin> set (tvAutoSeen (state p)) then
                        (let leaderName = (if rebLeader = A then name_t (teamA (state p))
                                           else name_t (teamB (state p)))
                         in showTeamComparison p key Rebounds rebA rebB rebLeader
                              (''TV Auto Team Comparison: Rebounds edge for '' @ leaderName))
                      else fastBreakStep p)
                else fastBreakStep p))"


text \<open>
  \<open>maybeAutoPlayerHighlight\<close> repeats one block for points, rebounds, steals, blocks and
  made threes: the highest milestone reached, the test that the player's value equals the
  maximum over all players, the key, and the call of \<open>showAutoPlayerHighlight\<close>.
  \<open>tryMilestone\<close> is that block; it returns the payload itself when the block does not
  fire. The source tests \<open>next !== payload\<close> on references; a payload that fired has a
  star player where the old one had none, so the test on values agrees with it.
\<close>

definition milestoneKey :: "TeamKey \<Rightarrow> PlayerState \<Rightarrow> string \<Rightarrow> int \<Rightarrow> string" where
  "milestoneKey t player statName m =
     ''player:'' @ team_str t @ '':'' @ id_p player @ '':'' @ statName @ '':'' @ show_int m"

definition tryMilestone ::
  "PersistedPayload \<Rightarrow> TeamKey \<Rightarrow> string \<Rightarrow> PlayerState \<Rightarrow> int \<Rightarrow> int \<Rightarrow> int list \<Rightarrow> string \<Rightarrow> string
   \<Rightarrow> PersistedPayload" where
  "tryMilestone p t pid player v mx milestones statName rsn =
     (let m = highestMilestone v milestones
      in if m > 0 \<and> v = mx
         then showAutoPlayerHighlight p t pid rsn (milestoneKey t player statName m)
         else p)"

definition maybeAutoPlayerHighlight :: "PersistedPayload \<Rightarrow> TeamKey \<Rightarrow> string \<Rightarrow> PersistedPayload" where
  "maybeAutoPlayerHighlight p t pid =
     (case find (\<lambda>q. id_p q = pid) (team_players t p) of
        None \<Rightarrow> p
      | Some player \<Rightarrow>
          (let everyone = allPlayers p;
               maxPts = foldl (\<lambda>m q. max m (pts q)) 0 everyone;
               maxReb = foldl (\<lambda>m q. max m (reb q)) 0 everyone;
               maxStl = foldl (\<lambda>m q. max m (stl q)) 0 everyone;
               maxBlk = foldl (\<lambda>m q. max m (blk q)) 0 everyone;
               maxTpm = foldl (\<lambda>m q. max m (tpm q)) 0 everyone;
               next1 = tryMilestone p t pid player (pts player) maxPts POINTS_MILESTONES ''pts''
                         (''High Scorer '' @ show_int (pts player) @ '' PTS'')
           in if next1 \<noteq> p then next1 else
          (let next2 = tryMilestone p t pid player (reb player) maxReb REB_MILESTONES ''reb''
                         (''Top Rebounder '' @ show_int (reb player) @ '' REB'')
           in if next2 \<noteq> p then next2 else
          (let next3 = tryMilestone p t pid player (stl player) maxStl STL_MILESTONES ''stl''
                         (''Steals Impact '' @ show_int (stl player) @ '' STL'')
           in if next3 \<noteq> p then next3 else
          (let next4 = tryMilestone p t pid player (blk player) maxBlk BLK_MILESTONES ''blk''
                         (''Rim Protection '' @ show_int (blk player) @ '' BLK'')
           in if next4 \<noteq> p then next4 else
          (let next5 = tryMilestone p t pid player (tpm player) maxTpm TPM_MILESTONES ''tpm''
                         (''Deep Range '' @ show_int (tpm player) @ '' 3PM'')
           in if next5 \<noteq> p then next5 else p))))))"

definition setPossession :: "PersistedPayload \<Rightarrow> TeamKey \<Rightarrow> PersistedPayload" where
  "setPossession p t =
     (let shouldRunShot = (gameClockRunning (state p) \<and> \<not> shotViolation (state p))
      in p\<lparr>state := (state p)
            \<lparr>possession := t,
             shotClockSeconds := shotClockDefault (state p),
             shotViolation := False,
             shotClockRunning := shouldRunShot\<rparr>\<rparr>)"

definition resetQuarter :: "PersistedPayload \<Rightarrow> PersistedPayload" where
  "resetQuarter p =
     p\<lparr>state := (state p)
         \<lparr>gameClockSeconds := quarterLengthMinutes (state p) * 60,
          shotClockSeconds := shotClockDefault (state p),
          gameClockRunning := False,
          shotClockRunning := False,
          shotViolation := False,
          gameFinal := False,
          overlayMode := None,
          overlayLabel := [],
          overlayRemainingSeconds := 0,
          overlayResumeGame := False,
          tvAutoCooldownSeconds := 0,
          tvAutoSeen := tvAutoSeen (state p),
          tvStarPlayer := None,
          tvTeamComparison := None\<rparr>\<rparr>"

definition beginOverlay :: "PersistedPayload \<Rightarrow> OverlayMode \<Rightarrow> string \<Rightarrow> int \<Rightarrow> PersistedPayload" where
  "beginOverlay p mode label seconds =
     p\<lparr>state := (state p)
         \<lparr>gameClockRunning := False,
          shotClockRunning := False,
          overlayMode := Some mode,
          overlayLabel := toUpperCase label,
          overlayRemainingSeconds := max 0 seconds,
          overlayResumeGame := gameClockRunning (state p)\<rparr>\<rparr>"

definition endOverlay :: "PersistedPayload \<Rightarrow> PersistedPayload" where
  "endOverlay p =
     (case overlayMode (state p) of
        None \<Rightarrow> p
      | Some mode \<Rightarrow>
          (let nextPayload = p\<lparr>state := (state p)
                                 \<lparr>overlayMode := None,
                                  overlayLabel := [],
                                  overlayRemainingSeconds := 0,
                                  overlayResumeGame := False\<rparr>\<rparr>
           in case mode of
                Halftime \<Rightarrow>
                  (if quarter (state nextPayload) = 2 \<and> totalQuarters (state nextPayload) \<ge> 3
                   then withActionLog
                          (nextPayload\<lparr>state := (state nextPayload)
                             \<lparr>quarter := 3,
                              gameClockSeconds := quarterLengthMinutes (state nextPayload) * 60,
                              shotClockSeconds := shotClockDefault (state nextPayload),
                              possession := A,
                              shotViolation := False\<rparr>\<rparr>)
                          ''Halftime ended.''
                   else withActionLog nextPayload ''Halftime ended.'')
              | Timeout \<Rightarrow>
                  (let resume = overlayResumeGame (state p)
                   in withActionLog
                        (nextPayload\<lparr>state := (state nextPayload)
                           \<lparr>gameClockRunning := resume,
                            shotClockRunning := resume\<rparr>\<rparr>)
                        ''Timeout ended.'')))"


section \<open>The reducer\<close>

text \<open>
  Each larger \<open>case\<close> of the \<open>switch\<close> in \<open>reducer\<close> is a definition of its own, named
  after the action; \<open>reducer\<close> dispatches to them. An optional \<open>playerId\<close> is used only
  when it is truthy, i.e. present and not the empty string (\<open>given_id\<close>).
\<close>

definition given_id :: "string option \<Rightarrow> string option" where
  "given_id pidOpt = (case pidOpt of None \<Rightarrow> None | Some s \<Rightarrow> if s = [] then None else Some s)"

definition addPoints :: "PersistedPayload \<Rightarrow> TeamKey \<Rightarrow> int \<Rightarrow> string option \<Rightarrow> PersistedPayload" where
  "addPoints p t points pidOpt =
     (if gameFinal (state p) then p
      else if points = 0 then p
      else
        (let nextScore = max 0 (score (get_team t (state p)) + points);
             np1 = p\<lparr>state := set_team t ((get_team t (state p))\<lparr>score := nextScore\<rparr>) (state p)\<rparr>;
             np2 = (case given_id pidOpt of
                      None \<Rightarrow> np1
                    | Some pid \<Rightarrow>
                        set_team_players t
                          (map (\<lambda>q. if id_p q = pid
                                     then q\<lparr>pts := pts q + points,
                                            tpm := tpm q + (if points = 3 then 1 else 0)\<rparr>
                                     else q)
                               (team_players t np1))
                          np1);
             np3 = (if points > 0 then
                      (let teamName = name_t (get_team t (state np2));
                           player = (case given_id pidOpt of
                                       None \<Rightarrow> None
                                     | Some pid \<Rightarrow> find (\<lambda>q. id_p q = pid) (team_players t np2));
                           logged = (case player of
                                       Some pl \<Rightarrow>
                                         withActionLog np2
                                           (name pl @ '' #'' @ show_int (number pl) @ '' hits ''
                                            @ show_int points @ '' for '' @ teamName
                                            @ '' ('' @ show_int (pts pl) @ '' pts)'')
                                     | None \<Rightarrow>
                                         withActionLog np2
                                           (teamName @ '' scores '' @ show_int points @ '' point''
                                            @ (if points = 1 then [] else ''s'') @ ''.''));
                           flipped = setPossession logged (other_team t)
                       in if timingMode (state flipped) = NBA \<and> gameClockRunning (state flipped)
                          then flipped\<lparr>state := (state flipped)
                                 \<lparr>gameClockRunning := False, shotClockRunning := False\<rparr>\<rparr>
                          else flipped)
                    else np2);
             np4 = (case given_id pidOpt of
                      None \<Rightarrow> np3
                    | Some pid \<Rightarrow> maybeAutoPlayerHighlight np3 t pid)
         in maybeAutoTeamComparison np4))"

definition addFastBreakPoints :: "PersistedPayload \<Rightarrow> TeamKey \<Rightarrow> int \<Rightarrow> PersistedPayload" where
  "addFastBreakPoints p t points =
     (if gameFinal (state p) then p
      else if points = 0 then p
      else
        (let teamName = name_t (get_team t (state p));
             np1 = p\<lparr>state := set_team t
                     ((get_team t (state p))
                        \<lparr>score := score (get_team t (state p)) + points,
                         fastBreakPoints := fastBreakPoints (get_team t (state p)) + points\<rparr>)
                     (state p)\<rparr>;
             np2 = withActionLog np1 (teamName @ '' fast break +'' @ show_int points);
             np3 = setPossession np2 (other_team t)
         in maybeAutoTeamComparison np3))"

definition opt_rule :: "LoadGameRulesInput option \<Rightarrow> (LoadGameRulesInput \<Rightarrow> 'a option) \<Rightarrow> 'a \<Rightarrow> 'a" where
  "opt_rule rules sel dflt =
     (case rules of None \<Rightarrow> dflt | Some r \<Rightarrow> (case sel r of None \<Rightarrow> dflt | Some v \<Rightarrow> v))"

definition loadGame ::
  "int \<Rightarrow> PersistedPayload \<Rightarrow> LoadGameTeamInput \<Rightarrow> LoadGameTeamInput \<Rightarrow> LoadGameRulesInput option
   \<Rightarrow> PersistedPayload" where
  "loadGame now p home away rules =
     (let nextQuarterLength = opt_rule rules quarterLengthMinutes_lg (quarterLengthMinutes (state p));
          nextTotalQuarters = opt_rule rules totalQuarters_lg (totalQuarters (state p));
          nextShotClockDefault = opt_rule rules shotClockDefault_lg (shotClockDefault (state p));
          nextFoulLimit = opt_rule rules foulLimit_lg (foulLimit (state p));
          nextTimingMode = opt_rule rules timingMode_lg (timingMode (state p));
          quarterSeconds = nextQuarterLength * 60
      in p\<lparr>state := (state p)
            \<lparr>teamA := (teamA (state p))
               \<lparr>name_t := name_lg home, score := 0, fouls := 0, timeouts := 3,
                fastBreakPoints := 0,
                color := (case color_lg home of Some c \<Rightarrow> c | None \<Rightarrow> color (teamA (state p))),
                logoUrl := (case logoUrl_lg home of Some u \<Rightarrow> u | None \<Rightarrow> [])\<rparr>,
             teamB := (teamB (state p))
               \<lparr>name_t := name_lg away, score := 0, fouls := 0, timeouts := 3,
                fastBreakPoints := 0,
                color := (case color_lg away of Some c \<Rightarrow> c | None \<Rightarrow> color (teamB (state p))),
                logoUrl := (case logoUrl_lg away of Some u \<Rightarrow> u | None \<Rightarrow> [])\<rparr>,
             possession := A,
             quarter := 1,
             totalQuarters := nextTotalQuarters,
             quarterLengthMinutes := nextQuarterLength,
             foulLimit := nextFoulLimit,
             shotClockDefault := nextShotClockDefault,
             gameClockSeconds := quarterSeconds,
             shotClockSeconds := nextShotClockDefault,
             gameClockRunning := False,
             shotClockRunning := False,
             timingMode := nextTimingMode,
             shotViolation := False,
             gameFinal := False,
             overlayMode := None,
             overlayLabel := [],
             overlayRemainingSeconds := 0,
             overlayResumeGame := False,
             tvAutoCooldownSeconds := 0,
             tvAutoSeen := [],
             tvStarPlayer := None,
             tvTeamComparison := None\<rparr>,
           players := \<lparr>players_A = buildLivePlayers now A (players_lg home),
                       players_B = buildLivePlayers now B (players_lg away)\<rparr>,
           actionLog := [''[Q1 - '' @ formatClock quarterSeconds @ ''] New game loaded: ''
                         @ name_lg home @ '' vs '' @ name_lg away]\<rparr>)"

definition openTimeout :: "PersistedPayload \<Rightarrow> TeamKey \<Rightarrow> int \<Rightarrow> PersistedPayload" where
  "openTimeout p t seconds =
     (let teamName = name_t (get_team t (state p));
          label = teamName @ '' Timeout'';
          np1 = beginOverlay p Timeout label seconds;
          np2 = np1\<lparr>state := set_team t
                  ((get_team t (state np1))
                     \<lparr>timeouts := max 0 (timeouts (get_team t (state np1)) - 1)\<rparr>)
                  (state np1)\<rparr>
      in withActionLog np2
           (teamName @ '' takes a '' @ (if seconds = 30 then ''30-second'' else ''full'')
            @ '' timeout''))"

definition startHalftime :: "PersistedPayload \<Rightarrow> int \<Rightarrow> PersistedPayload" where
  "startHalftime p mins =
     (let minutes = max 1 mins;
          np1 = withActionLog p (''Halftime begins ('' @ show_int minutes @ '' minutes)'')
      in beginOverlay np1 Halftime ''Halftime'' (minutes * 60))"

definition showTvStarPlayer :: "PersistedPayload \<Rightarrow> TeamKey \<Rightarrow> string \<Rightarrow> PersistedPayload" where
  "showTvStarPlayer p t pid =
     (case find (\<lambda>q. id_p q = pid) (team_players t p) of
        None \<Rightarrow> p
      | Some player \<Rightarrow>
          (let teamName = (if t = A then name_t (teamA (state p)) else name_t (teamB (state p)))
           in withActionLog
                (p\<lparr>state := (state p)
                     \<lparr>tvStarPlayer := Some \<lparr>team_sp = t, playerId = pid, remainingSeconds = 10,
                                           reason = Some ''Star Player'', auto_sp = Some False\<rparr>,
                      tvTeamComparison := None\<rparr>\<rparr>)
                (''TV Star Player: '' @ name player @ '' #'' @ show_int (number player)
                 @ '' ('' @ teamName @ '')'')))"


text \<open>
  \<open>INC_PLAYER_STAT\<close> maps \<open>incStatOne\<close> over the team's list. The callback also assigns
  the closure variable \<open>fouledOutPlayerName\<close> each time it takes the foul-out branch
  (\<open>foulsOutNow\<close>), so the variable ends as the text of the last such player.
\<close>

definition incStatOne :: "int \<Rightarrow> string \<Rightarrow> Stat \<Rightarrow> int \<Rightarrow> PlayerState \<Rightarrow> PlayerState" where
  "incStatOne limit pid st amount q =
     (if id_p q \<noteq> pid \<or> fouledOut q then q
      else (let nxt = stat_set st (max 0 (stat_get st q + amount)) q
            in if st = Fls \<and> fls nxt \<ge> limit
               then nxt\<lparr>fouledOut := True, onCourt := False\<rparr>
               else nxt))"

definition foulsOutNow :: "int \<Rightarrow> string \<Rightarrow> Stat \<Rightarrow> int \<Rightarrow> PlayerState \<Rightarrow> bool" where
  "foulsOutNow limit pid st amount q =
     (\<not> (id_p q \<noteq> pid \<or> fouledOut q) \<and> st = Fls
      \<and> fls (stat_set st (max 0 (stat_get st q + amount)) q) \<ge> limit)"

definition incPlayerStat ::
  "PersistedPayload \<Rightarrow> TeamKey \<Rightarrow> string \<Rightarrow> Stat \<Rightarrow> int option \<Rightarrow> PersistedPayload" where
  "incPlayerStat p t pid st amountOpt =
     (let amount = (case amountOpt of Some a \<Rightarrow> a | None \<Rightarrow> 1);
          limit = foulLimit (state p);
          out = filter (foulsOutNow limit pid st amount) (team_players t p);
          fouledOutPlayerName = (if out = [] then []
                                 else name (last out) @ '' #'' @ show_int (number (last out)));
          np1 = set_team_players t (map (incStatOne limit pid st amount) (team_players t p)) p;
          np2 = (if st = Fls then recalcTeamFouls np1 t else np1);
          player = find (\<lambda>q. id_p q = pid) (team_players t np2);
          np3 = (case player of
                   None \<Rightarrow> np2
                 | Some pl \<Rightarrow>
                     if st \<noteq> Fls
                     then withActionLog np2 (name pl @ '' #'' @ show_int (number pl) @ '' +'' @ stat_upper st)
                     else np2);
          np4 = (if fouledOutPlayerName \<noteq> []
                 then withActionLog np3 (fouledOutPlayerName @ '' fouled out.'')
                 else np3);
          np5 = maybeAutoPlayerHighlight np4 t pid
      in maybeAutoTeamComparison np5)"

definition setPlayerOnCourt :: "PersistedPayload \<Rightarrow> TeamKey \<Rightarrow> string \<Rightarrow> bool \<Rightarrow> PersistedPayload" where
  "setPlayerOnCourt p t pid oc =
     (let lst = team_players t p;
          onCourtCount = length (filter onCourt lst)
      in case find (\<lambda>q. id_p q = pid) lst of
           None \<Rightarrow> p
         | Some target \<Rightarrow>
             if fouledOut target then p
             else if oc \<and> \<not> onCourt target \<and> onCourtCount \<ge> 5 then p
             else set_team_players t
                    (map (\<lambda>q. if id_p q = pid then q\<lparr>onCourt := oc\<rparr> else q) lst) p)"

definition substitutePlayer :: "PersistedPayload \<Rightarrow> TeamKey \<Rightarrow> string \<Rightarrow> string \<Rightarrow> PersistedPayload" where
  "substitutePlayer p t playerOutId playerInId =
     (let lst = team_players t p
      in case (find (\<lambda>q. id_p q = playerOutId) lst, find (\<lambda>q. id_p q = playerInId) lst) of
           (Some playerOut, Some playerIn) \<Rightarrow>
             if \<not> onCourt playerOut \<or> onCourt playerIn \<or> fouledOut playerIn then p
             else
               (let np1 = set_team_players t
                            (map (\<lambda>q. if id_p q = playerOutId then q\<lparr>onCourt := False\<rparr>
                                       else if id_p q = playerInId then q\<lparr>onCourt := True\<rparr>
                                       else q) lst) p
                in withActionLog np1
                     (name playerOut @ '' #'' @ show_int (number playerOut) @ '' subbed out for ''
                      @ name playerIn @ '' #'' @ show_int (number playerIn) @ ''.''))
         | _ \<Rightarrow> p)"

definition addPlayer :: "int \<Rightarrow> PersistedPayload \<Rightarrow> TeamKey \<Rightarrow> string \<Rightarrow> int \<Rightarrow> bool \<Rightarrow> PersistedPayload" where
  "addPlayer now p t nm num oc =
     (let addOnCourt = (oc \<and> length (filter onCourt (team_players t p)) < 5)
      in set_team_players t
           (team_players t p @
            [\<lparr>id_p = team_str t @ ''-'' @ show_int now,
              number = num, name = nm, imageUrl = None,
              pts = 0, reb = 0, ast = 0, stl = 0, blk = 0, tpm = 0, fls = 0, secondsPlayed = 0,
              onCourt = addOnCourt, fouledOut = False\<rparr>])
           p)"

definition updatePlayer :: "PersistedPayload \<Rightarrow> TeamKey \<Rightarrow> string \<Rightarrow> PlayerUpdates \<Rightarrow> PersistedPayload" where
  "updatePlayer p t pid updates =
     (let lst = team_players t p
      in case find (\<lambda>q. id_p q = pid) lst of
           None \<Rightarrow> p
         | Some target \<Rightarrow>
             (let wantsOnCourt = (onCourt_upd updates = Some True \<and> \<not> onCourt target);
                  onCourtCount = length (filter onCourt lst)
              in if wantsOnCourt \<and> onCourtCount \<ge> 5 then p
                 else recalcTeamFouls
                        (set_team_players t
                           (map (\<lambda>q. if id_p q = pid
                                      then q\<lparr>name := (case name_upd updates of Some v \<Rightarrow> v | None \<Rightarrow> name q),
                                             number := (case number_upd updates of Some v \<Rightarrow> v | None \<Rightarrow> number q),
                                             onCourt := (case onCourt_upd updates of Some v \<Rightarrow> v | None \<Rightarrow> onCourt q)\<rparr>
                                      else q) lst) p)
                        t))"

definition deletePlayer :: "PersistedPayload \<Rightarrow> TeamKey \<Rightarrow> string \<Rightarrow> PersistedPayload" where
  "deletePlayer p t pid =
     recalcTeamFouls (set_team_players t (filter (\<lambda>q. id_p q \<noteq> pid) (team_players t p)) p) t"

definition tick :: "PersistedPayload \<Rightarrow> PersistedPayload" where
  "tick p =
     (let st = state p;
          nextAutoCooldownSeconds = max 0 (tvAutoCooldownSeconds st - 1);
          nextTvStarPlayer =
            (case tvStarPlayer st of
               None \<Rightarrow> None
             | Some sp \<Rightarrow> if remainingSeconds sp \<le> 1 then None
                          else Some (sp\<lparr>remainingSeconds := remainingSeconds sp - 1\<rparr>));
          nextTvTeamComparison =
            (case tvTeamComparison st of
               None \<Rightarrow> None
             | Some tc \<Rightarrow> if remainingSeconds_tc tc \<le> 1 then None
                          else Some (tc\<lparr>remainingSeconds_tc := remainingSeconds_tc tc - 1\<rparr>))
      in if overlayMode st \<noteq> None then
           (let nextRemaining = max 0 (overlayRemainingSeconds st - 1);
                nextPayload = p\<lparr>state := st
                                \<lparr>overlayRemainingSeconds := nextRemaining,
                                 tvAutoCooldownSeconds := nextAutoCooldownSeconds,
                                 tvStarPlayer := nextTvStarPlayer,
                                 tvTeamComparison := nextTvTeamComparison\<rparr>\<rparr>
            in if nextRemaining \<le> 0 then endOverlay nextPayload else nextPayload)
         else
           (let gameNext = (if gameClockRunning st then max 0 (gameClockSeconds st - 1)
                            else gameClockSeconds st);
                shotNext = (if shotClockRunning st then max 0 (shotClockSeconds st - 1)
                            else shotClockSeconds st);
                reachedQuarterEnd = (gameClockRunning st \<and> gameNext = 0);
                nextState0 = st
                  \<lparr>gameClockSeconds := gameNext,
                   shotClockSeconds := shotNext,
                   gameClockRunning := (if gameNext > 0 then gameClockRunning st else False),
                   shotClockRunning := (if gameNext > 0 \<and> shotNext > 0 then shotClockRunning st else False),
                   shotViolation := (if shotNext = 0 then True else shotViolation st),
                   tvAutoCooldownSeconds := nextAutoCooldownSeconds,
                   tvStarPlayer := nextTvStarPlayer,
                   tvTeamComparison := nextTvTeamComparison\<rparr>;
                advancedQuarter = quarter st + 1;
                nextState =
                  (if reachedQuarterEnd \<and> quarter st < totalQuarters st then
                     nextState0
                       \<lparr>quarter := advancedQuarter,
                        gameClockSeconds := quarterLengthMinutes st * 60,
                        shotClockSeconds := shotClockDefault st,
                        gameClockRunning := False,
                        shotClockRunning := False,
                        shotViolation := False\<rparr>
                   else if reachedQuarterEnd \<and> quarter st \<ge> totalQuarters st then
                     nextState0\<lparr>gameFinal := True\<rparr>
                   else nextState0);
                nextActionLog =
                  (if reachedQuarterEnd \<and> quarter st < totalQuarters st then
                     actionLog (withActionLog (p\<lparr>state := nextState\<rparr>)
                                  (''Quarter ended. Advanced to Q'' @ show_int advancedQuarter @ ''.''))
                   else if reachedQuarterEnd \<and> quarter st \<ge> totalQuarters st then
                     actionLog (withActionLog (p\<lparr>state := nextState\<rparr>) ''Final buzzer.'')
                   else actionLog p);
                nextPlayers =
                  (if gameClockRunning st then
                     \<lparr>players_A = map (\<lambda>q. if onCourt q then q\<lparr>secondsPlayed := secondsPlayed q + 1\<rparr> else q)
                                       (players_A (players p)),
                      players_B = map (\<lambda>q. if onCourt q then q\<lparr>secondsPlayed := secondsPlayed q + 1\<rparr> else q)
                                       (players_B (players p))\<rparr>
                   else players p)
            in p\<lparr>state := nextState, players := nextPlayers, actionLog := nextActionLog\<rparr>))"

fun reducer :: "int \<Rightarrow> PersistedPayload \<Rightarrow> ScoreboardAction \<Rightarrow> PersistedPayload" where
  "reducer now p (ADD_POINTS t points pid) = addPoints p t points pid"
| "reducer now p (ADD_FAST_BREAK_POINTS t points) = addFastBreakPoints p t points"
| "reducer now p (SET_TEAM_NAME t nm) =
     p\<lparr>state := set_team t
         ((get_team t (state p))
            \<lparr>name_t := (if nm \<noteq> [] then nm else (if t = A then ''Home'' else ''Away''))\<rparr>)
         (state p)\<rparr>"
| "reducer now p (SET_TEAM_COLOR t c) =
     p\<lparr>state := set_team t ((get_team t (state p))\<lparr>color := c\<rparr>) (state p)\<rparr>"
| "reducer now p (SET_TEAM_LOGO t u) =
     p\<lparr>state := set_team t ((get_team t (state p))\<lparr>logoUrl := u\<rparr>) (state p)\<rparr>"
| "reducer now p (LOAD_GAME home away rules) = loadGame now p home away rules"
| "reducer now p (SET_POSSESSION t) = setPossession p t"
| "reducer now p START_GAME =
     (if overlayMode (state p) \<noteq> None then p
      else p\<lparr>state := (state p)\<lparr>gameClockRunning := True, shotClockRunning := True, gameFinal := False\<rparr>\<rparr>)"
| "reducer now p STOP_GAME =
     p\<lparr>state := (state p)\<lparr>gameClockRunning := False, shotClockRunning := False\<rparr>\<rparr>"
| "reducer now p FINISH_GAME =
     p\<lparr>state := (state p)
         \<lparr>gameClockRunning := False,
          shotClockRunning := False,
          gameFinal := True,
          overlayMode := None,
          overlayLabel := [],
          overlayRemainingSeconds := 0,
          overlayResumeGame := False,
          tvStarPlayer := None,
          tvTeamComparison := None\<rparr>\<rparr>"
| "reducer now p START_SHOT =
     (if overlayMode (state p) \<noteq> None then p
      else p\<lparr>state := (state p)\<lparr>shotClockRunning := True\<rparr>\<rparr>)"
| "reducer now p STOP_SHOT = p\<lparr>state := (state p)\<lparr>shotClockRunning := False\<rparr>\<rparr>"
| "reducer now p RESET_QUARTER = resetQuarter p"
| "reducer now p PREV_QUARTER =
     (let prevQuarter = max 1 (quarter (state p) - 1)
      in resetQuarter (p\<lparr>state := (state p)\<lparr>quarter := prevQuarter\<rparr>\<rparr>))"
| "reducer now p NEXT_QUARTER =
     (let nextQuarter = min (totalQuarters (state p)) (quarter (state p) + 1)
      in resetQuarter (p\<lparr>state := (state p)\<lparr>quarter := nextQuarter\<rparr>\<rparr>))"
| "reducer now p (RESET_SHOT seconds) =
     p\<lparr>state := (state p)
         \<lparr>shotClockSeconds := seconds, shotClockRunning := False, shotViolation := False\<rparr>\<rparr>"
| "reducer now p (INC_FOUL t) =
     p\<lparr>state := set_team t
         ((get_team t (state p))\<lparr>fouls := fouls (get_team t (state p)) + 1\<rparr>) (state p)\<rparr>"
| "reducer now p (USE_TIMEOUT t) = openTimeout p t 60"
| "reducer now p (OPEN_TIMEOUT t seconds) = openTimeout p t seconds"
| "reducer now p (START_HALFTIME mins) = startHalftime p mins"
| "reducer now p (END_OVERLAY manual) = endOverlay p"
| "reducer now p (SHOW_TV_STAR_PLAYER t pid) = showTvStarPlayer p t pid"
| "reducer now p DISMISS_TV_STAR_PLAYER =
     p\<lparr>state := (state p)\<lparr>tvStarPlayer := None, tvTeamComparison := None\<rparr>\<rparr>"
| "reducer now p (INC_PLAYER_STAT t pid st amount) = incPlayerStat p t pid st amount"
| "reducer now p (SET_PLAYER_ON_COURT t pid oc) = setPlayerOnCourt p t pid oc"
| "reducer now p (SUBSTITUTE_PLAYER t playerOutId playerInId) = substitutePlayer p t playerOutId playerInId"
| "reducer now p (ADD_PLAYER t nm num oc) = addPlayer now p t nm num oc"
| "reducer now p (UPDATE_PLAYER t pid updates) = updatePlayer p t pid updates"
| "reducer now p (DELETE_PLAYER t pid) = deletePlayer p t pid"
| "reducer now p (ADD_LOG text) = withActionLog p text"
| "reducer now p TICK = tick p"
| "reducer now p (HYDRATE q) = q"

section \<open>Persisted payload codec (storage.ts, in \<open>src\<close> the file unnamed/part_001)\<close>

text \<open>
  The store holds text. \<open>JSON.parse\<close> either throws or returns a document that
  \<open>parsePayload\<close> reads as a \<open>Partial<PersistedPayload>\<close>: a payload in which any field
  may be missing. The model represents a stored text by what \<open>JSON.parse\<close> makes of it:
  \<open>Unparseable\<close> when it throws (the empty string included), \<open>Parsed d\<close> otherwise, where
  \<open>d\<close> has an \<open>option\<close> for every field (\<open>None\<close>: the field is missing). A document that
  is not an object, such as \<open>null\<close> or a number, has no fields at all. A field that may
  itself be \<open>null\<close> keeps its own \<open>option\<close> inside. \<open>JSON.stringify\<close> writes the text whose
  parse is the document with every defined field present (\<open>encodePayload\<close>).
\<close>

record TeamStateJ =
  name_tj :: "string option"
  score_j :: "int option"
  fouls_j :: "int option"
  timeouts_j :: "int option"
  fastBreakPoints_j :: "int option"
  color_j :: "string option"
  logoUrl_j :: "string option"

record ScoreboardStateJ =
  teamA_j :: "TeamStateJ option"
  teamB_j :: "TeamStateJ option"
  possession_j :: "TeamKey option"
  quarter_j :: "int option"
  totalQuarters_j :: "int option"
  quarterLengthMinutes_j :: "int option"
  foulLimit_j :: "int option"
  gameClockSeconds_j :: "int option"
  shotClockDefault_j :: "int option"
  shotClockSeconds_j :: "int option"
  gameClockRunning_j :: "bool option"
  shotClockRunning_j :: "bool option"
  timingMode_j :: "TimingMode option"
  shotViolation_j :: "bool option"
  gameFinal_j :: "bool option"
  overlayMode_j :: "OverlayMode option option"
  overlayLabel_j :: "string option"
  overlayRemainingSeconds_j :: "int option"
  overlayResumeGame_j :: "bool option"
  tvAutoCooldownSeconds_j :: "int option"
  tvAutoSeen_j :: "string list option"
  tvStarPlayer_j :: "StarPlayer option option"
  tvTeamComparison_j :: "TeamComparison option option"

record PlayerStateJ =
  id_j :: "string option"
  number_j :: "int option"
  name_j :: "string option"
  imageUrl_j :: "string option"
  pts_j :: "int option"
  reb_j :: "int option"
  ast_j :: "int option"
  stl_j :: "int option"
  blk_j :: "int option"
  tpm_j :: "int option"
  fls_j :: "int option"
  secondsPlayed_j :: "int option"
  onCourt_j :: "bool option"
  fouledOut_j :: "bool option"

record PlayersJ =
  players_A_j :: "PlayerStateJ list option"
  players_B_j :: "PlayerStateJ list option"

record PersistedPayloadJ =
  state_j :: "ScoreboardStateJ option"
  players_j :: "PlayersJ option"
  actionLog_j :: "string list option"
  updatedAt_j :: "int option"

datatype RawText = Unparseable | Parsed PersistedPayloadJ

definition STORAGE_KEY_V5 :: string where
  "STORAGE_KEY_V5 = ''basketball_scoreboard_state_v5b''"

definition STORAGE_KEY_V3 :: string where
  "STORAGE_KEY_V3 = ''basketball_scoreboard_state_v3''"

text \<open>
  A spread \<open>{...base, ...parsed}\<close> takes each field from \<open>parsed\<close> when it is there and from
  \<open>base\<close> otherwise (\<open>or_base\<close>).
\<close>

definition or_base :: "'a option \<Rightarrow> 'a \<Rightarrow> 'a" where
  "or_base v b = (case v of Some x \<Rightarrow> x | None \<Rightarrow> b)"

definition mergeTeam :: "TeamState \<Rightarrow> TeamStateJ option \<Rightarrow> TeamState" where
  "mergeTeam b tj =
     (case tj of
        None \<Rightarrow> b
      | Some j \<Rightarrow>
          \<lparr>name_t = or_base (name_tj j) (name_t b),
           score = or_base (score_j j) (score b),
           fouls = or_base (fouls_j j) (fouls b),
           timeouts = or_base (timeouts_j j) (timeouts b),
           fastBreakPoints = or_base (fastBreakPoints_j j) (fastBreakPoints b),
           color = or_base (color_j j) (color b),
           logoUrl = or_base (logoUrl_j j) (logoUrl b)\<rparr>)"

definition mergeState :: "ScoreboardState \<Rightarrow> ScoreboardStateJ \<Rightarrow> ScoreboardState" where
  "mergeState b j =
     \<lparr>teamA = mergeTeam (teamA b) (teamA_j j),
      teamB = mergeTeam (teamB b) (teamB_j j),
      possession = or_base (possession_j j) (possession b),
      quarter = or_base (quarter_j j) (quarter b),
      totalQuarters = or_base (totalQuarters_j j) (totalQuarters b),
      quarterLengthMinutes = or_base (quarterLengthMinutes_j j) (quarterLengthMinutes b),
      foulLimit = or_base (foulLimit_j j) (foulLimit b),
      gameClockSeconds = or_base (gameClockSeconds_j j) (gameClockSeconds b),
      shotClockDefault = or_base (shotClockDefault_j j) (shotClockDefault b),
      shotClockSeconds = or_base (shotClockSeconds_j j) (shotClockSeconds b),
      gameClockRunning = or_base (gameClockRunning_j j) (gameClockRunning b),
      shotClockRunning = or_base (shotClockRunning_j j) (shotClockRunning b),
      timingMode = or_base (timingMode_j j) (timingMode b),
      shotViolation = or_base (shotViolation_j j) (shotViolation b),
      gameFinal = or_base (gameFinal_j j) (gameFinal b),
      overlayMode = or_base (overlayMode_j j) (overlayMode b),
      overlayLabel = or_base (overlayLabel_j j) (overlayLabel b),
      overlayRemainingSeconds = or_base (overlayRemainingSeconds_j j) (overlayRemainingSeconds b),
      overlayResumeGame = or_base (overlayResumeGame_j j) (overlayResumeGame b),
      tvAutoCooldownSeconds = or_base (tvAutoCooldownSeconds_j j) (tvAutoCooldownSeconds b),
      tvAutoSeen = or_base (tvAutoSeen_j j) (tvAutoSeen b),
      tvStarPlayer = or_base (tvStarPlayer_j j) (tvStarPlayer b),
      tvTeamComparison = or_base (tvTeamComparison_j j) (tvTeamComparison b)\<rparr>"

text \<open>
  \<open>normalizePlayers\<close> merges the player at index \<open>idx\<close> with \<open>fallback[idx] ?? fallback[0]\<close>
  and sets \<open>tpm\<close> to the stored number or to zero. Both calls pass a default roster of
  seven players, so \<open>fallback[0]\<close> exists.
\<close>

definition mergePlayer :: "PlayerState \<Rightarrow> PlayerStateJ \<Rightarrow> PlayerState" where
  "mergePlayer b j =
     \<lparr>id_p = or_base (id_j j) (id_p b),
      number = or_base (number_j j) (number b),
      name = or_base (name_j j) (name b),
      imageUrl = (case imageUrl_j j of Some u \<Rightarrow> Some u | None \<Rightarrow> imageUrl b),
      pts = or_base (pts_j j) (pts b),
      reb = or_base (reb_j j) (reb b),
      ast = or_base (ast_j j) (ast b),
      stl = or_base (stl_j j) (stl b),
      blk = or_base (blk_j j) (blk b),
      tpm = (case tpm_j j of Some v \<Rightarrow> v | None \<Rightarrow> 0),
      fls = or_base (fls_j j) (fls b),
      secondsPlayed = or_base (secondsPlayed_j j) (secondsPlayed b),
      onCourt = or_base (onCourt_j j) (onCourt b),
      fouledOut = or_base (fouledOut_j j) (fouledOut b)\<rparr>"

fun normalizePlayersFrom :: "nat \<Rightarrow> PlayerStateJ list \<Rightarrow> PlayerState list \<Rightarrow> PlayerState list" where
  "normalizePlayersFrom idx [] fallback = []"
| "normalizePlayersFrom idx (j # rest) fallback =
     mergePlayer (if idx < length fallback then fallback ! idx else hd fallback) j
     # normalizePlayersFrom (idx + 1) rest fallback"

definition normalizePlayers :: "PlayerStateJ list option \<Rightarrow> PlayerState list \<Rightarrow> PlayerState list" where
  "normalizePlayers lst fallback =
     (case lst of None \<Rightarrow> fallback | Some l \<Rightarrow> normalizePlayersFrom 0 l fallback)"

definition isState :: "ScoreboardStateJ option \<Rightarrow> bool" where
  "isState v =
     (case v of
        None \<Rightarrow> False
      | Some obj \<Rightarrow> teamA_j obj \<noteq> None \<and> teamB_j obj \<noteq> None
                    \<and> gameClockSeconds_j obj \<noteq> None \<and> shotClockSeconds_j obj \<noteq> None)"

definition parsePayload :: "int \<Rightarrow> RawText option \<Rightarrow> PersistedPayload option" where
  "parsePayload now raw =
     (case raw of
        None \<Rightarrow> None
      | Some Unparseable \<Rightarrow> None
      | Some (Parsed parsed) \<Rightarrow>
          (case state_j parsed of
             None \<Rightarrow> None
           | Some sj \<Rightarrow>
               if \<not> isState (state_j parsed) then None
               else
                 (let base = defaultPayload now
                  in Some
                       \<lparr>state = mergeState (state base) sj,
                        players =
                          \<lparr>players_A = normalizePlayers
                                          (case players_j parsed of None \<Rightarrow> None | Some pj \<Rightarrow> players_A_j pj)
                                          (players_A (players base)),
                           players_B = normalizePlayers
                                          (case players_j parsed of None \<Rightarrow> None | Some pj \<Rightarrow> players_B_j pj)
                                          (players_B (players base))\<rparr>,
                        actionLog = or_base (actionLog_j parsed) [],
                        updatedAt = or_base (updatedAt_j parsed) now\<rparr>)))"

definition encodeTeam :: "TeamState \<Rightarrow> TeamStateJ" where
  "encodeTeam t =
     \<lparr>name_tj = Some (name_t t), score_j = Some (score t), fouls_j = Some (fouls t),
      timeouts_j = Some (timeouts t), fastBreakPoints_j = Some (fastBreakPoints t),
      color_j = Some (color t), logoUrl_j = Some (logoUrl t)\<rparr>"

definition encodeState :: "ScoreboardState \<Rightarrow> ScoreboardStateJ" where
  "encodeState s =
     \<lparr>teamA_j = Some (encodeTeam (teamA s)),
      teamB_j = Some (encodeTeam (teamB s)),
      possession_j = Some (possession s),
      quarter_j = Some (quarter s),
      totalQuarters_j = Some (totalQuarters s),
      quarterLengthMinutes_j = Some (quarterLengthMinutes s),
      foulLimit_j = Some (foulLimit s),
      gameClockSeconds_j = Some (gameClockSeconds s),
      shotClockDefault_j = Some (shotClockDefault s),
      shotClockSeconds_j = Some (shotClockSeconds s),
      gameClockRunning_j = Some (gameClockRunning s),
      shotClockRunning_j = Some (shotClockRunning s),
      timingMode_j = Some (timingMode s),
      shotViolation_j = Some (shotViolation s),
      gameFinal_j = Some (gameFinal s),
      overlayMode_j = Some (overlayMode s),
      overlayLabel_j = Some (overlayLabel s),
      overlayRemainingSeconds_j = Some (overlayRemainingSeconds s),
      overlayResumeGame_j = Some (overlayResumeGame s),
      tvAutoCooldownSeconds_j = Some (tvAutoCooldownSeconds s),
      tvAutoSeen_j = Some (tvAutoSeen s),
      tvStarPlayer_j = Some (tvStarPlayer s),
      tvTeamComparison_j = Some (tvTeamComparison s)\<rparr>"

definition encodePlayer :: "PlayerState \<Rightarrow> PlayerStateJ" where
  "encodePlayer q =
     \<lparr>id_j = Some (id_p q), number_j = Some (number q), name_j = Some (name q),
      imageUrl_j = imageUrl q,
      pts_j = Some (pts q), reb_j = Some (reb q), ast_j = Some (ast q), stl_j = Some (stl q),
      blk_j = Some (blk q), tpm_j = Some (tpm q), fls_j = Some (fls q),
      secondsPlayed_j = Some (secondsPlayed q), onCourt_j = Some (onCourt q),
      fouledOut_j = Some (fouledOut q)\<rparr>"

definition encodePayload :: "PersistedPayload \<Rightarrow> PersistedPayloadJ" where
  "encodePayload p =
     \<lparr>state_j = Some (encodeState (state p)),
      players_j = Some \<lparr>players_A_j = Some (map encodePlayer (players_A (players p))),
                        players_B_j = Some (map encodePlayer (players_B (players p)))\<rparr>,
      actionLog_j = Some (actionLog p),
      updatedAt_j = Some (updatedAt p)\<rparr>"

text \<open>
  \<open>savePayload\<close> stamps the payload with the time of the write, serializes it and stores
  the text under both keys. \<open>serializePayload\<close> is the text it stores; the store
  (\<open>localStorage\<close>) is a map from keys to texts.
\<close>

definition serializePayload :: "int \<Rightarrow> PersistedPayload \<Rightarrow> RawText" where
  "serializePayload now payload =
     (let normalized = payload\<lparr>updatedAt := now\<rparr> in Parsed (encodePayload normalized))"

definition savePayload :: "int \<Rightarrow> PersistedPayload \<Rightarrow> (string \<rightharpoonup> RawText) \<Rightarrow> (string \<rightharpoonup> RawText)" where
  "savePayload now payload store =
     (let serialized = serializePayload now payload
      in (store(STORAGE_KEY_V5 \<mapsto> serialized))(STORAGE_KEY_V3 \<mapsto> serialized))"

definition loadLatestPayload :: "int \<Rightarrow> (string \<rightharpoonup> RawText) \<Rightarrow> PersistedPayload" where
  "loadLatestPayload now store =
     (case (parsePayload now (store STORAGE_KEY_V5), parsePayload now (store STORAGE_KEY_V3)) of
        (None, None) \<Rightarrow> defaultPayload now
      | (None, Some fromV3) \<Rightarrow> fromV3
      | (Some fromV5, None) \<Rightarrow> fromV5
      | (Some fromV5, Some fromV3) \<Rightarrow> if updatedAt fromV5 \<ge> updatedAt fromV3 then fromV5 else fromV3)"

section \<open>The storage listener (useScoreboardStore)\<close>

text \<open>
  The listener receives a storage event (\<open>key\<close> and \<open>newValue\<close>, each possibly \<open>null\<close>)
  and sees the payload the instance holds. \<open>onStorage\<close> is the action it dispatches, if
  any; \<open>storageStep\<close> is the payload the instance holds afterwards.
\<close>

record StorageEvent =
  key_ev :: "string option"
  newValue_ev :: "RawText option"

definition onStorage :: "int \<Rightarrow> PersistedPayload \<Rightarrow> StorageEvent \<Rightarrow> ScoreboardAction option" where
  "onStorage now payload ev =
     (if key_ev ev = None \<or> key_ev ev = Some [] \<or> newValue_ev ev = None then None
      else if key_ev ev \<noteq> Some ''basketball_scoreboard_state_v3''
              \<and> key_ev ev \<noteq> Some ''basketball_scoreboard_state_v5b'' then None
      else case parsePayload now (newValue_ev ev) of
             None \<Rightarrow> None
           | Some externalPayload \<Rightarrow>
               if updatedAt externalPayload \<le> updatedAt payload then None
               else Some (HYDRATE externalPayload))"

definition storageStep :: "int \<Rightarrow> PersistedPayload \<Rightarrow> StorageEvent \<Rightarrow> PersistedPayload" where
  "storageStep now payload ev =
     (case onStorage now payload ev of
        None \<Rightarrow> payload
      | Some a \<Rightarrow> reducer now payload a)"

section \<open>Predicates used in the statements\<close>

definition onCourtCount :: "PlayerState list \<Rightarrow> nat" where
  "onCourtCount lst = length (filter onCourt lst)"

definition courtBound :: "PersistedPayload \<Rightarrow> bool" where
  "courtBound p = (onCourtCount (players_A (players p)) \<le> 5 \<and> onCourtCount (players_B (players p)) \<le> 5)"

definition distinctIds :: "PersistedPayload \<Rightarrow> bool" where
  "distinctIds p = (distinct (map id_p (players_A (players p))) \<and> distinct (map id_p (players_B (players p))))"

definition sumFls :: "PlayerState list \<Rightarrow> int" where
  "sumFls lst = sum_list (map fls lst)"

text \<open>
  The highlight detector writes only the four \<open>tv...\<close> fields of the state and the action
  log. \<open>highlightFrame p q\<close> says that \<open>q\<close> agrees with \<open>p\<close> on everything else.
\<close>

definition clearTv :: "ScoreboardState \<Rightarrow> ScoreboardState" where
  "clearTv s = s\<lparr>tvAutoCooldownSeconds := 0, tvAutoSeen := [], tvStarPlayer := None,
                 tvTeamComparison := None\<rparr>"

definition highlightFrame :: "PersistedPayload \<Rightarrow> PersistedPayload \<Rightarrow> bool" where
  "highlightFrame p q =
     (players q = players p \<and> updatedAt q = updatedAt p \<and> clearTv (state q) = clearTv (state p))"

text \<open>
  \<open>addPointsCore\<close> is the part of the \<open>ADD_POINTS\<close> case between its two guards and the
  calls of the highlight detector: the payload \<open>nextPayload\<close> has there. \<open>logStep q r\<close>
  says that the log of \<open>r\<close> is the log of \<open>q\<close> or that log with one line put in front
  (and cut to 250 lines).
\<close>

definition addPointsCore :: "PersistedPayload \<Rightarrow> TeamKey \<Rightarrow> int \<Rightarrow> string option \<Rightarrow> PersistedPayload" where
  "addPointsCore p t points pidOpt =
        (let nextScore = max 0 (score (get_team t (state p)) + points);
             np1 = p\<lparr>state := set_team t ((get_team t (state p))\<lparr>score := nextScore\<rparr>) (state p)\<rparr>;
             np2 = (case given_id pidOpt of
                      None \<Rightarrow> np1
                    | Some pid \<Rightarrow>
                        set_team_players t
                          (map (\<lambda>q. if id_p q = pid
                                     then q\<lparr>pts := pts q + points,
                                            tpm := tpm q + (if points = 3 then 1 else 0)\<rparr>
                                     else q)
                               (team_players t np1))
                          np1)
         in (if points > 0 then
                      (let teamName = name_t (get_team t (state np2));
                           player = (case given_id pidOpt of
                                       None \<Rightarrow> None
                                     | Some pid \<Rightarrow> find (\<lambda>q. id_p q = pid) (team_players t np2));
                           logged = (case player of
                                       Some pl \<Rightarrow>
                                         withActionLog np2
                                           (name pl @ '' #'' @ show_int (number pl) @ '' hits ''
                                            @ show_int points @ '' for '' @ teamName
                                            @ '' ('' @ show_int (pts pl) @ '' pts)'')
                                     | None \<Rightarrow>
                                         withActionLog np2
                                           (teamName @ '' scores '' @ show_int points @ '' point''
                                            @ (if points = 1 then [] else ''s'') @ ''.''));
                           flipped = setPossession logged (other_team t)
                       in if timingMode (state flipped) = NBA \<and> gameClockRunning (state flipped)
                          then flipped\<lparr>state := (state flipped)
                                 \<lparr>gameClockRunning := False, shotClockRunning := False\<rparr>\<rparr>
                          else flipped)
                    else np2))"


text \<open>
  \<open>leagueMax f p\<close> is the maximum of a stat over all players of both teams, as
  \<open>maybeAutoPlayerHighlight\<close> computes it. \<open>firedWith p t pid player statName f milestones r\<close>
  says that \<open>r\<close> is \<open>p\<close> after the milestone highlight fired for that stat: the player has
  reached a milestone, the player's value is the maximum (no player has more), the key was
  not seen before, and \<open>r\<close> has the key in front of the seen list, the cooldown started
  and the star player set.
\<close>

definition leagueMax :: "(PlayerState \<Rightarrow> int) \<Rightarrow> PersistedPayload \<Rightarrow> int" where
  "leagueMax f p = foldl (\<lambda>m q. max m (f q)) 0 (allPlayers p)"

definition firedWith ::
  "PersistedPayload \<Rightarrow> TeamKey \<Rightarrow> string \<Rightarrow> PlayerState \<Rightarrow> string \<Rightarrow> (PlayerState \<Rightarrow> int) \<Rightarrow> int list
   \<Rightarrow> PersistedPayload \<Rightarrow> bool" where
  "firedWith p t pid player statName f milestones r =
     (let m = highestMilestone (f player) milestones;
          key = milestoneKey t player statName m
      in 0 < m
         \<and> f player = leagueMax f p
         \<and> (\<forall>q \<in> set (allPlayers p). f q \<le> f player)
         \<and> key \<notin> set (tvAutoSeen (state p))
         \<and> tvAutoSeen (state r) = take 400 (key # filter (\<lambda>item. item \<noteq> key) (tvAutoSeen (state p)))
         \<and> tvAutoCooldownSeconds (state r) = HIGHLIGHT_COOLDOWN_SECONDS
         \<and> (\<exists>rsn. tvStarPlayer (state r) =
                     Some \<lparr>team_sp = t, playerId = pid, remainingSeconds = PLAYER_HIGHLIGHT_SECONDS,
                           reason = Some rsn, auto_sp = Some True\<rparr>))"


section \<open>Concrete payloads used in the examples\<close>

definition scenarioC :: PersistedPayload where
  "scenarioC = (defaultPayload 0)\<lparr>state := defaultState\<lparr>gameClockRunning := True, gameClockSeconds := 1\<rparr>\<rparr>"

definition finalQuarterC :: PersistedPayload where
  "finalQuarterC =
     (defaultPayload 0)\<lparr>state := defaultState\<lparr>gameClockRunning := True, gameClockSeconds := 1, quarter := 4\<rparr>\<rparr>"

definition beforeTimeout :: PersistedPayload where
  "beforeTimeout = reducer 0 (reducer 0 (defaultPayload 0) START_GAME) STOP_SHOT"

definition halftimeOpen :: PersistedPayload where
  "halftimeOpen =
     reducer 0 ((defaultPayload 0)\<lparr>state := defaultState\<lparr>quarter := 2\<rparr>\<rparr>) (START_HALFTIME 15)"

text \<open>
  The defaults after five personal fouls on the first player of team A (the foul limit is 5),
  an update that asks for a player to be on court, and a view of the players with a given id
  (\<open>fouledOut\<close>, \<open>onCourt\<close>, \<open>pts\<close>, \<open>fls\<close>).
\<close>

definition fouledOutPayload :: PersistedPayload where
  "fouledOutPayload = ((\<lambda>p. reducer 0 p (INC_PLAYER_STAT A ''A-0-0'' Fls None)) ^^ 5) (defaultPayload 0)"

definition returnToCourt :: PlayerUpdates where
  "returnToCourt = \<lparr>name_upd = None, number_upd = None, onCourt_upd = Some True\<rparr>"

definition playerView :: "string \<Rightarrow> PlayerState list \<Rightarrow> (bool \<times> bool \<times> int \<times> int) list" where
  "playerView pid lst = map (\<lambda>q. (fouledOut q, onCourt q, pts q, fls q)) (filter (\<lambda>q. id_p q = pid) lst)"



definition scoringView :: "string \<Rightarrow> PlayerState list \<Rightarrow> (int \<times> int) list" where
  "scoringView pid lst = map (\<lambda>q. (pts q, tpm q)) (filter (\<lambda>q. id_p q = pid) lst)"

text \<open>
  A document without fields, the storage event that carries the defaults written at time
  \<open>ts\<close> under the current key, and a payload held with \<open>updatedAt = ts\<close>.
\<close>

definition emptyDocument :: PersistedPayloadJ where
  "emptyDocument = \<lparr>state_j = None, players_j = None, actionLog_j = None, updatedAt_j = None\<rparr>"

definition eventD :: "int \<Rightarrow> StorageEvent" where
  "eventD ts = \<lparr>key_ev = Some STORAGE_KEY_V5, newValue_ev = Some (serializePayload ts (defaultPayload 0))\<rparr>"

definition heldAt :: "int \<Rightarrow> PersistedPayload" where
  "heldAt ts = (defaultPayload 1)\<lparr>updatedAt := ts\<rparr>"

text \<open>The defaults with 10 points for the first player of each team: a tie at the maximum.\<close>

definition tiePayload :: PersistedPayload where
  "tiePayload =
     (defaultPayload 0)
       \<lparr>players :=
          \<lparr>players_A = map (\<lambda>q. if id_p q = ''A-0-0'' then q\<lparr>pts := 10\<rparr> else q)
                            (players_A (players (defaultPayload 0))),
           players_B = map (\<lambda>q. if id_p q = ''B-0-0'' then q\<lparr>pts := 10\<rparr> else q)
                            (players_B (players (defaultPayload 0)))\<rparr>\<rparr>"

text \<open>
  The defaults with all seven players of team A on court; and the defaults after two
  \<open>ADD_PLAYER\<close> actions in the same millisecond (both new players get the id \<open>A-7\<close>)
  and after the first player of team A has left the court.
\<close>

definition crowded :: PersistedPayload where
  "crowded =
     (defaultPayload 0)
       \<lparr>players := \<lparr>players_A = map (\<lambda>q. q\<lparr>onCourt := True\<rparr>) (players_A (players (defaultPayload 0))),
                    players_B = players_B (players (defaultPayload 0))\<rparr>\<rparr>"

definition dupPayload :: PersistedPayload where
  "dupPayload =
     reducer 0
       (reducer 7 (reducer 7 (defaultPayload 0) (ADD_PLAYER A ''Sub'' 20 False)) (ADD_PLAYER A ''Sub'' 20 False))
       (SET_PLAYER_ON_COURT A ''A-0-0'' False)"


section \<open>Basic facts about the helpers\<close>

lemma state_withActionLog [simp]: "state (withActionLog p text) = state p"
  by (simp add: withActionLog_def Let_def)

lemma players_withActionLog [simp]: "players (withActionLog p text) = players p"
  by (simp add: withActionLog_def Let_def)

lemma updatedAt_withActionLog [simp]: "updatedAt (withActionLog p text) = updatedAt p"
  by (simp add: withActionLog_def Let_def)

subsection \<open>What the highlight detector leaves alone\<close>

lemma highlightFrame_refl [simp]: "highlightFrame p p"
  by (simp add: highlightFrame_def)

lemma highlightFrame_trans: "highlightFrame p q \<Longrightarrow> highlightFrame q r \<Longrightarrow> highlightFrame p r"
  by (simp add: highlightFrame_def)

lemma highlightFrame_showAutoPlayerHighlight:
  "highlightFrame p (showAutoPlayerHighlight p t pid rsn key)"
  by (simp add: highlightFrame_def clearTv_def showAutoPlayerHighlight_def markSeen_def Let_def
           split: option.splits)

lemma highlightFrame_tryMilestone:
  "highlightFrame p (tryMilestone p t pid player v mx ms statName rsn)"
  by (simp add: tryMilestone_def Let_def highlightFrame_showAutoPlayerHighlight)

lemma highlightFrame_maybeAutoPlayerHighlight:
  "highlightFrame p (maybeAutoPlayerHighlight p t pid)"
  by (simp add: maybeAutoPlayerHighlight_def Let_def highlightFrame_tryMilestone split: option.splits)

lemma highlightFrame_showTeamComparison:
  "highlightFrame p (showTeamComparison p key m va vb leader text)"
  by (simp add: highlightFrame_def clearTv_def showTeamComparison_def markSeen_def)

lemma highlightFrame_fastBreakStep: "highlightFrame p (fastBreakStep p)"
  by (simp add: fastBreakStep_def Let_def highlightFrame_showTeamComparison split: option.splits)

lemma highlightFrame_maybeAutoTeamComparison: "highlightFrame p (maybeAutoTeamComparison p)"
  by (simp add: maybeAutoTeamComparison_def Let_def highlightFrame_showTeamComparison
        highlightFrame_fastBreakStep split: option.splits)

lemma highlightFrame_both:
  "highlightFrame p (maybeAutoTeamComparison (maybeAutoPlayerHighlight p t pid))"
  by (rule highlightFrame_trans [OF highlightFrame_maybeAutoPlayerHighlight
        highlightFrame_maybeAutoTeamComparison])

lemma highlightFrame_team_players: "highlightFrame p q \<Longrightarrow> team_players t q = team_players t p"
  by (cases t) (simp_all add: highlightFrame_def team_players_def)

lemma clearTv_fields:
  "teamA (clearTv s) = teamA s" "teamB (clearTv s) = teamB s"
  "possession (clearTv s) = possession s" "shotClockSeconds (clearTv s) = shotClockSeconds s"
  "gameClockRunning (clearTv s) = gameClockRunning s" "shotClockRunning (clearTv s) = shotClockRunning s"
  by (simp_all add: clearTv_def)

lemma highlightFrame_teamA: "highlightFrame p q \<Longrightarrow> teamA (state q) = teamA (state p)"
  by (metis highlightFrame_def clearTv_fields(1))

lemma highlightFrame_teamB: "highlightFrame p q \<Longrightarrow> teamB (state q) = teamB (state p)"
  by (metis highlightFrame_def clearTv_fields(2))

lemma highlightFrame_get_team: "highlightFrame p q \<Longrightarrow> get_team t (state q) = get_team t (state p)"
  by (cases t) (simp_all add: get_team_def highlightFrame_teamA highlightFrame_teamB)

lemmas highlight_get_team [simp] = highlightFrame_get_team [OF highlightFrame_both]
   highlightFrame_get_team [OF highlightFrame_maybeAutoTeamComparison]
   highlightFrame_get_team [OF highlightFrame_maybeAutoPlayerHighlight]

lemmas highlight_team_players [simp] = highlightFrame_team_players [OF highlightFrame_both]
   highlightFrame_team_players [OF highlightFrame_maybeAutoTeamComparison]
   highlightFrame_team_players [OF highlightFrame_maybeAutoPlayerHighlight]

lemma team_players_withActionLog [simp]: "team_players t (withActionLog p text) = team_players t p"
  by (cases t) (simp_all add: team_players_def)

lemma team_players_set_same [simp]: "team_players t (set_team_players t v p) = v"
  by (cases t) (simp_all add: team_players_def set_team_players_def)

lemma team_players_set_other [simp]: "t' \<noteq> t \<Longrightarrow> team_players t' (set_team_players t v p) = team_players t' p"
  by (cases t; cases t') (simp_all add: team_players_def set_team_players_def)

lemma state_set_team_players [simp]: "state (set_team_players t v p) = state p"
  by (cases t) (simp_all add: set_team_players_def)

lemma get_team_set_same [simp]: "get_team t (set_team t v s) = v"
  by (cases t) (simp_all add: get_team_def set_team_def)

lemma get_team_set_other [simp]: "t' \<noteq> t \<Longrightarrow> get_team t' (set_team t v s) = get_team t' s"
  by (cases t; cases t') (simp_all add: get_team_def set_team_def)

lemma foldl_fls_sum:
  "foldl (\<lambda>sum pl. sum + (if fls pl \<noteq> 0 then fls pl else 0)) a xs = a + sum_list (map fls xs)"
  by (induction xs arbitrary: a) simp_all

lemma team_players_recalcTeamFouls [simp]: "team_players t' (recalcTeamFouls p t) = team_players t' p"
  by (cases t') (simp_all add: recalcTeamFouls_def team_players_def Let_def)

lemma fouls_recalcTeamFouls [simp]:
  "fouls (get_team t (state (recalcTeamFouls p t))) = sumFls (team_players t p)"
  by (simp add: recalcTeamFouls_def Let_def foldl_fls_sum sumFls_def)


subsection \<open>Players after a stat increment and after scoring\<close>

lemma show_nat_digit: "n < 10 \<Longrightarrow> show_nat n = [digit_char n]"
  by (simp add: show_nat.simps)

lemma show_int_0 [simp]: "show_int 0 = ''0''"
  by (simp add: show_int_def show_nat_digit digit_char_def)

lemma default_players_A:
  "players_A (players (defaultPayload 0)) =
     map (\<lambda>(i, num, nm, oc). \<lparr>id_p = ''A-'' @ i @ ''-0'', number = num, name = nm, imageUrl = None,
            pts = 0, reb = 0, ast = 0, stl = 0, blk = 0, tpm = 0, fls = 0, secondsPlayed = 0,
            onCourt = oc, fouledOut = False\<rparr>)
       [(''0'', 1, ''Player A1'', True), (''1'', 3, ''Player A2'', True), (''2'', 5, ''Player A3'', True),
        (''3'', 7, ''Player A4'', True), (''4'', 9, ''Player A5'', True), (''5'', 11, ''Player A6'', False),
        (''6'', 13, ''Player A7'', False)]"
  by (simp add: defaultPayload_def createPlayerState_def DEFAULT_PLAYERS_A_def team_str_def
        show_nat_digit digit_char_def)

lemma team_players_incPlayerStat:
  "team_players t (incPlayerStat p t pid st amt) =
     map (incStatOne (foulLimit (state p)) pid st (case amt of Some a \<Rightarrow> a | None \<Rightarrow> 1)) (team_players t p)"
  by (simp add: incPlayerStat_def Let_def split: option.splits)

lemma clearTv_foulLimit: "foulLimit (clearTv s) = foulLimit s" "gameFinal (clearTv s) = gameFinal s"
  by (simp_all add: clearTv_def)

lemma highlightFrame_foulLimit: "highlightFrame p q \<Longrightarrow> foulLimit (state q) = foulLimit (state p)"
  by (metis highlightFrame_def clearTv_foulLimit(1))

lemma highlightFrame_gameFinal: "highlightFrame p q \<Longrightarrow> gameFinal (state q) = gameFinal (state p)"
  by (metis highlightFrame_def clearTv_foulLimit(2))

lemma state_recalcTeamFouls_fields [simp]:
  "foulLimit (state (recalcTeamFouls p t)) = foulLimit (state p)"
  "gameFinal (state (recalcTeamFouls p t)) = gameFinal (state p)"
  by (cases t; simp add: recalcTeamFouls_def set_team_def Let_def)+

lemma incPlayerStat_fields [simp]:
  "foulLimit (state (incPlayerStat p t pid st amt)) = foulLimit (state p)"
  "gameFinal (state (incPlayerStat p t pid st amt)) = gameFinal (state p)"
  by (simp_all add: incPlayerStat_def Let_def highlightFrame_foulLimit [OF highlightFrame_both]
        highlightFrame_gameFinal [OF highlightFrame_both] split: option.splits)

lemma team_players_state_update [simp]: "team_players t (p\<lparr>state := s\<rparr>) = team_players t p"
  by (cases t) (simp_all add: team_players_def)

lemma team_players_setPossession [simp]: "team_players t (setPossession p t') = team_players t p"
  by (simp add: setPossession_def Let_def)

lemma option_case_same: "(case x of None \<Rightarrow> a | Some y \<Rightarrow> a) = a"
  by (cases x) simp_all

lemma team_players_addPoints:
  "\<not> gameFinal (state p) \<Longrightarrow> points \<noteq> 0 \<Longrightarrow>
   team_players t (addPoints p t points pidOpt) =
     (case given_id pidOpt of
        None \<Rightarrow> team_players t p
      | Some pid \<Rightarrow>
          map (\<lambda>q. if id_p q = pid
                    then q\<lparr>pts := pts q + points, tpm := tpm q + (if points = 3 then 1 else 0)\<rparr>
                    else q) (team_players t p))"
  apply (cases "given_id pidOpt")
   apply (simp_all add: addPoints_def Let_def if_distrib [of "team_players t"]
        option.case_distrib [of "team_players t"] option_case_same
        split del: if_split cong: if_cong option.case_cong)
  apply auto
  done

lemma iterate_incPlayerStat:
  "team_players t (((\<lambda>p. reducer now p (INC_PLAYER_STAT t pid st amt)) ^^ k) d) =
     ((map (incStatOne (foulLimit (state d)) pid st (case amt of Some a \<Rightarrow> a | None \<Rightarrow> 1))) ^^ k)
       (team_players t d)
   \<and> foulLimit (state (((\<lambda>p. reducer now p (INC_PLAYER_STAT t pid st amt)) ^^ k) d)) = foulLimit (state d)
   \<and> gameFinal (state (((\<lambda>p. reducer now p (INC_PLAYER_STAT t pid st amt)) ^^ k) d)) = gameFinal (state d)"
  by (induction k) (simp_all add: team_players_incPlayerStat)

lemma funpow_five: "(f ^^ 5) x = f (f (f (f (f x))))"
  by (simp add: eval_nat_numeral)

subsection \<open>The action log across the highlight detector\<close>

lemma clearTv_more:
  "quarter (clearTv s) = quarter s" "gameClockSeconds (clearTv s) = gameClockSeconds s"
  by (simp_all add: clearTv_def)














lemma default_players_B:
  "players_B (players (defaultPayload 0)) =
     map (\<lambda>(i, num, nm, oc). \<lparr>id_p = ''B-'' @ i @ ''-0'', number = num, name = nm, imageUrl = None,
            pts = 0, reb = 0, ast = 0, stl = 0, blk = 0, tpm = 0, fls = 0, secondsPlayed = 0,
            onCourt = oc, fouledOut = False\<rparr>)
       [(''0'', 2, ''Player B1'', True), (''1'', 4, ''Player B2'', True), (''2'', 6, ''Player B3'', True),
        (''3'', 8, ''Player B4'', True), (''4'', 10, ''Player B5'', True), (''5'', 12, ''Player B6'', False),
        (''6'', 14, ''Player B7'', False)]"
  by (simp add: defaultPayload_def createPlayerState_def DEFAULT_PLAYERS_B_def team_str_def
        show_nat_digit digit_char_def)

lemma show_int_10 [simp]: "show_int 10 = ''10''"
  by (simp add: show_int_def show_nat.simps [of 10] show_nat_digit digit_char_def)

subsection \<open>Scoring apart from the highlight detector\<close>

lemma highlightFrame_players: "highlightFrame p q \<Longrightarrow> players q = players p"
  by (simp add: highlightFrame_def)

lemma addPoints_core:
  "addPoints p t points pidOpt =
     (if gameFinal (state p) \<or> points = 0 then p
      else maybeAutoTeamComparison
             (case given_id pidOpt of
                None \<Rightarrow> addPointsCore p t points pidOpt
              | Some pid \<Rightarrow> maybeAutoPlayerHighlight (addPointsCore p t points pidOpt) t pid))"
  by (cases "gameFinal (state p)"; cases "points = 0")
     (simp_all only: addPoints_def addPointsCore_def Let_def if_True if_False simp_thms)

lemma highlightFrame_addPoints:
  "\<not> gameFinal (state p) \<Longrightarrow> points \<noteq> 0 \<Longrightarrow>
   highlightFrame (addPointsCore p t points pidOpt) (addPoints p t points pidOpt)"
  by (cases "given_id pidOpt")
     (simp_all add: addPoints_core highlightFrame_maybeAutoTeamComparison highlightFrame_both)


section \<open>At most five players on court\<close>

lemma courtBound_iff: "courtBound p \<longleftrightarrow> (\<forall>t. onCourtCount (team_players t p) \<le> 5)"
proof
  assume "courtBound p"
  then show "\<forall>t. onCourtCount (team_players t p) \<le> 5"
    by (auto simp add: courtBound_def team_players_def split: TeamKey.splits)
next
  assume "\<forall>t. onCourtCount (team_players t p) \<le> 5"
  then have "onCourtCount (team_players A p) \<le> 5" and "onCourtCount (team_players B p) \<le> 5"
    by blast+
  then show "courtBound p" by (simp add: courtBound_def team_players_def)
qed

lemma distinctIds_team: "distinctIds p \<Longrightarrow> distinct (map id_p (team_players t p))"
  by (cases t) (simp_all add: distinctIds_def team_players_def)

lemma team_players_cong: "players r = players p \<Longrightarrow> team_players t r = team_players t p"
  by (cases t) (simp_all add: team_players_def)

lemma onCourtCount_map_le:
  "(\<And>q. onCourt (f q) \<Longrightarrow> onCourt q) \<Longrightarrow> onCourtCount (map f xs) \<le> onCourtCount xs"
  unfolding onCourtCount_def
  by (induction xs) (auto simp add: le_SucI)

lemma onCourtCount_map_eq:
  "(\<And>q. onCourt (f q) = onCourt q) \<Longrightarrow> onCourtCount (map f xs) = onCourtCount xs"
  unfolding onCourtCount_def
  by (induction xs) auto

lemma onCourtCount_filter_le: "onCourtCount (filter P xs) \<le> onCourtCount xs"
  unfolding onCourtCount_def
  by (induction xs) (auto simp add: le_SucI)

lemma onCourtCount_snoc: "onCourtCount (xs @ [q]) = onCourtCount xs + (if onCourt q then 1 else 0)"
  by (simp add: onCourtCount_def)

lemma map_other_ids: "pid \<notin> set (map id_p xs) \<Longrightarrow> map (\<lambda>q. if id_p q = pid then g q else q) xs = xs"
  by (induction xs) auto

lemma onCourtCount_update_one:
  assumes "distinct (map id_p xs)" and "find (\<lambda>q. id_p q = pid) xs = Some target"
  shows "onCourtCount (map (\<lambda>q. if id_p q = pid then g q else q) xs) + (if onCourt target then 1 else 0)
         = onCourtCount xs + (if onCourt (g target) then 1 else 0)"
  using assms
proof (induction xs)
  case Nil
  then show ?case by simp
next
  case (Cons x xs)
  show ?case
  proof (cases "id_p x = pid")
    case True
    with Cons.prems have tx: "target = x" and "pid \<notin> set (map id_p xs)" by auto
    then have "map (\<lambda>q. if id_p q = pid then g q else q) xs = xs" by (simp add: map_other_ids)
    with True tx show ?thesis by (simp add: onCourtCount_def)
  next
    case False
    with Cons.prems have "distinct (map id_p xs)" "find (\<lambda>q. id_p q = pid) xs = Some target" by auto
    from Cons.IH [OF this] False show ?thesis by (simp add: onCourtCount_def)
  qed
qed

lemma find_map_same_id:
  assumes "\<And>q. id_p (f q) = id_p q"
  shows "find (\<lambda>q. id_p q = pid) (map f xs) = map_option f (find (\<lambda>q. id_p q = pid) xs)"
  by (induction xs) (simp_all add: assms)

lemma onCourtCount_buildLivePlayersFrom:
  "onCourtCount (buildLivePlayersFrom now t idx ps) \<le> 5 - idx"
proof (induction ps arbitrary: idx)
  case Nil
  show ?case by (simp add: onCourtCount_def)
next
  case (Cons a ps)
  from Cons [of "idx + 1"] show ?case
    by (cases "idx < 5") (simp_all add: onCourtCount_def)
qed

lemma onCourtCount_buildLivePlayers: "onCourtCount (buildLivePlayers now t ps) \<le> 5"
  using onCourtCount_buildLivePlayersFrom [of now t 0] by (simp add: buildLivePlayers_def Let_def)

lemma onCourt_incStatOne: "onCourt (incStatOne limit pid st amount q) \<Longrightarrow> onCourt q"
  by (cases st) (simp_all add: incStatOne_def stat_set_def Let_def split: if_splits)


lemma players_setPossession [simp]: "players (setPossession p t) = players p"
  by (simp add: setPossession_def Let_def)

lemma players_resetQuarter [simp]: "players (resetQuarter p) = players p"
  by (simp add: resetQuarter_def)

lemma players_beginOverlay [simp]: "players (beginOverlay p mode label seconds) = players p"
  by (simp add: beginOverlay_def)

lemma players_endOverlay [simp]: "players (endOverlay p) = players p"
  by (simp add: endOverlay_def Let_def split: option.splits OverlayMode.splits)

lemma players_openTimeout [simp]: "players (openTimeout p t seconds) = players p"
  by (simp add: openTimeout_def Let_def)

lemma players_startHalftime [simp]: "players (startHalftime p mins) = players p"
  by (simp add: startHalftime_def Let_def)

lemma players_showTvStarPlayer [simp]: "players (showTvStarPlayer p t pid) = players p"
  by (simp add: showTvStarPlayer_def Let_def split: option.splits)

lemma players_addFastBreakPoints [simp]: "players (addFastBreakPoints p t points) = players p"
  by (simp add: addFastBreakPoints_def Let_def
        highlightFrame_players [OF highlightFrame_maybeAutoTeamComparison])

lemma team_players_incPlayerStat_any:
  "team_players t' (incPlayerStat p t pid st amt) =
     (if t' = t
      then map (incStatOne (foulLimit (state p)) pid st (case amt of Some a \<Rightarrow> a | None \<Rightarrow> 1))
             (team_players t p)
      else team_players t' p)"
  by (simp add: incPlayerStat_def Let_def split: option.splits)

lemma team_players_addPointsCore:
  "team_players t' (addPointsCore p t points pidOpt) =
     (if t' = t
      then (case given_id pidOpt of
              None \<Rightarrow> team_players t p
            | Some pid \<Rightarrow>
                map (\<lambda>q. if id_p q = pid
                          then q\<lparr>pts := pts q + points, tpm := tpm q + (if points = 3 then 1 else 0)\<rparr>
                          else q) (team_players t p))
      else team_players t' p)"
  apply (cases "given_id pidOpt")
   apply (simp_all add: addPointsCore_def Let_def if_distrib [of "team_players t'"]
        option.case_distrib [of "team_players t'"] option_case_same
        split del: if_split cong: if_cong option.case_cong)
   apply auto
  done

lemma onCourtCount_addPoints:
  "onCourtCount (team_players t' (addPoints p t points pidOpt)) = onCourtCount (team_players t' p)"
proof (cases "gameFinal (state p) \<or> points = 0")
  case True
  then show ?thesis by (auto simp add: addPoints_def)
next
  case False
  then have fr: "highlightFrame (addPointsCore p t points pidOpt) (addPoints p t points pidOpt)"
    by (simp add: highlightFrame_addPoints)
  show ?thesis
    unfolding highlightFrame_team_players [OF fr] team_players_addPointsCore
    by (simp add: onCourtCount_map_eq split: option.splits)
qed

lemma setPlayerOnCourt_bound:
  assumes "\<forall>t. onCourtCount (team_players t p) \<le> 5" and "distinct (map id_p (team_players t p))"
  shows "onCourtCount (team_players t' (setPlayerOnCourt p t pid oc)) \<le> 5"
proof (cases "find (\<lambda>q. id_p q = pid) (team_players t p)")
  case None
  with assms(1) show ?thesis by (simp add: setPlayerOnCourt_def)
next
  case (Some target)
  show ?thesis
  proof (cases "t' = t")
    case False
    with assms(1) Some show ?thesis by (simp add: setPlayerOnCourt_def Let_def)
  next
    case True
    from onCourtCount_update_one [OF assms(2) Some, of "\<lambda>q. q\<lparr>onCourt := oc\<rparr>"] assms(1) [rule_format, of t]
    show ?thesis
      unfolding True
      by (simp add: setPlayerOnCourt_def Some Let_def onCourtCount_def [symmetric] split: if_splits)
  qed
qed

lemma updatePlayer_bound:
  assumes "\<forall>t. onCourtCount (team_players t p) \<le> 5" and "distinct (map id_p (team_players t p))"
  shows "onCourtCount (team_players t' (updatePlayer p t pid upd)) \<le> 5"
proof (cases "find (\<lambda>q. id_p q = pid) (team_players t p)")
  case None
  with assms(1) show ?thesis by (simp add: updatePlayer_def)
next
  case (Some target)
  show ?thesis
  proof (cases "t' = t")
    case False
    with assms(1) Some show ?thesis by (simp add: updatePlayer_def Let_def)
  next
    case True
    from onCourtCount_update_one [OF assms(2) Some,
           of "\<lambda>q. q\<lparr>name := (case name_upd upd of Some v \<Rightarrow> v | None \<Rightarrow> name q),
                     number := (case number_upd upd of Some v \<Rightarrow> v | None \<Rightarrow> number q),
                     onCourt := (case onCourt_upd upd of Some v \<Rightarrow> v | None \<Rightarrow> onCourt q)\<rparr>"]
         assms(1) [rule_format, of t]
    show ?thesis
      unfolding True
      by (cases "onCourt_upd upd")
         (simp_all add: updatePlayer_def Some Let_def onCourtCount_def [symmetric] split: if_splits)
  qed
qed


lemma map_id_p_update:
  "map id_p (map (\<lambda>q. if id_p q = pid then q\<lparr>onCourt := b\<rparr> else q) xs) = map id_p xs"
  by (induction xs) auto

lemma substitutePlayer_bound:
  assumes "\<forall>t. onCourtCount (team_players t p) \<le> 5" and "distinct (map id_p (team_players t p))"
  shows "onCourtCount (team_players t' (substitutePlayer p t outId inId)) \<le> 5"
proof -
  let ?xs = "team_players t p"
  let ?h1 = "\<lambda>q. if id_p q = outId then q\<lparr>onCourt := False\<rparr> else q"
  let ?h2 = "\<lambda>q. if id_p q = inId then q\<lparr>onCourt := True\<rparr> else q"
  let ?h = "\<lambda>q. if id_p q = outId then q\<lparr>onCourt := False\<rparr>
                else if id_p q = inId then q\<lparr>onCourt := True\<rparr> else q"
  show ?thesis
  proof (cases "\<exists>playerOut playerIn. find (\<lambda>q. id_p q = outId) ?xs = Some playerOut
            \<and> find (\<lambda>q. id_p q = inId) ?xs = Some playerIn
            \<and> onCourt playerOut \<and> \<not> onCourt playerIn \<and> \<not> fouledOut playerIn")
    case False
    then have "substitutePlayer p t outId inId = p"
      by (auto simp add: substitutePlayer_def Let_def split: option.splits)
    with assms(1) show ?thesis by simp
  next
    case True
    then obtain playerOut playerIn where
      fo: "find (\<lambda>q. id_p q = outId) ?xs = Some playerOut" and
      fi: "find (\<lambda>q. id_p q = inId) ?xs = Some playerIn" and
      oc: "onCourt playerOut" "\<not> onCourt playerIn" "\<not> fouledOut playerIn"
      by blast
    from fo fi oc have ne: "outId \<noteq> inId" by auto
    from fi have idin: "id_p playerIn = inId"
      by (auto simp add: find_Some_iff)
    have res: "team_players t' (substitutePlayer p t outId inId) =
                 (if t' = t then map ?h ?xs else team_players t' p)"
      using fo fi oc by (simp add: substitutePlayer_def Let_def)
    have comp: "map ?h ?xs = map ?h2 (map ?h1 ?xs)"
      using ne by auto
    have d1: "distinct (map id_p (map ?h1 ?xs))"
      using assms(2) by (simp only: map_id_p_update)
    have f1: "find (\<lambda>q. id_p q = inId) (map ?h1 ?xs) = Some playerIn"
    proof -
      have "find (\<lambda>q. id_p q = inId) (map ?h1 ?xs) = map_option ?h1 (find (\<lambda>q. id_p q = inId) ?xs)"
        by (rule find_map_same_id) simp
      with fi idin ne show ?thesis by auto
    qed
    from onCourtCount_update_one [OF assms(2) fo, of "\<lambda>q. q\<lparr>onCourt := False\<rparr>"] oc(1)
    have c1: "onCourtCount (map ?h1 ?xs) + 1 = onCourtCount ?xs" by simp
    from onCourtCount_update_one [OF d1 f1, of "\<lambda>q. q\<lparr>onCourt := True\<rparr>"] oc(2)
    have c2: "onCourtCount (map ?h2 (map ?h1 ?xs)) = onCourtCount (map ?h1 ?xs) + 1" by simp
    have "onCourtCount (map ?h ?xs) = onCourtCount ?xs"
      unfolding comp c2 by (rule c1)
    with res assms(1) show ?thesis by simp
  qed
qed

lemma addPlayer_bound:
  assumes "\<forall>t. onCourtCount (team_players t p) \<le> 5"
  shows "onCourtCount (team_players t' (addPlayer now p t nm num oc)) \<le> 5"
  using assms [rule_format, of t] assms [rule_format, of t']
  by (cases "t' = t") (simp_all add: addPlayer_def Let_def onCourtCount_snoc onCourtCount_def [symmetric])

lemma incPlayerStat_bound:
  assumes "\<forall>t. onCourtCount (team_players t p) \<le> 5"
  shows "onCourtCount (team_players t' (incPlayerStat p t pid st amt)) \<le> 5"
proof (cases "t' = t")
  case True
  have "onCourtCount (map (incStatOne (foulLimit (state p)) pid st (case amt of Some a \<Rightarrow> a | None \<Rightarrow> 1))
                        (team_players t p)) \<le> onCourtCount (team_players t p)"
    by (rule onCourtCount_map_le) (rule onCourt_incStatOne)
  with assms [rule_format, of t] True show ?thesis
    by (simp add: team_players_incPlayerStat_any)
next
  case False
  with assms show ?thesis by (simp add: team_players_incPlayerStat_any)
qed

lemma deletePlayer_bound:
  assumes "\<forall>t. onCourtCount (team_players t p) \<le> 5"
  shows "onCourtCount (team_players t' (deletePlayer p t pid)) \<le> 5"
proof (cases "t' = t")
  case True
  have "onCourtCount (filter (\<lambda>q. id_p q \<noteq> pid) (team_players t p)) \<le> onCourtCount (team_players t p)"
    by (rule onCourtCount_filter_le)
  with assms [rule_format, of t] True show ?thesis by (simp add: deletePlayer_def)
next
  case False
  with assms show ?thesis by (simp add: deletePlayer_def)
qed

lemma tick_players:
  "players (tick p) = players p
   \<or> players (tick p) =
       \<lparr>players_A = map (\<lambda>q. if onCourt q then q\<lparr>secondsPlayed := secondsPlayed q + 1\<rparr> else q)
                          (players_A (players p)),
        players_B = map (\<lambda>q. if onCourt q then q\<lparr>secondsPlayed := secondsPlayed q + 1\<rparr> else q)
                          (players_B (players p))\<rparr>"
  by (simp add: tick_def Let_def)

lemma tick_bound:
  assumes "courtBound p"
  shows "courtBound (tick p)"
proof -
  have "onCourtCount (map (\<lambda>q. if onCourt q then q\<lparr>secondsPlayed := secondsPlayed q + 1\<rparr> else q) xs)
          = onCourtCount xs" for xs
    by (rule onCourtCount_map_eq) simp
  with tick_players [of p] assms show ?thesis
    by (auto simp add: courtBound_def)
qed

lemma loadGame_bound: "courtBound (loadGame now p home away rules)"
  by (simp add: courtBound_def loadGame_def Let_def onCourtCount_buildLivePlayers)

lemma courtBound_players: "players r = players p \<Longrightarrow> courtBound r = courtBound p"
  by (simp add: courtBound_def)

lemma show_int_7 [simp]: "show_int 7 = ''7''"
  by (simp add: show_int_def show_nat_digit digit_char_def)

lemma default_courtBound: "courtBound (defaultPayload 0)"
  by (simp add: courtBound_def onCourtCount_def default_players_A default_players_B)

lemma default_distinctIds: "distinctIds (defaultPayload 0)"
  by (simp add: distinctIds_def default_players_A default_players_B)

lemma dupPayload_A:
  "players_A (players dupPayload) =
     map (\<lambda>(i, num, nm, oc). \<lparr>id_p = i, number = num, name = nm, imageUrl = None,
            pts = 0, reb = 0, ast = 0, stl = 0, blk = 0, tpm = 0, fls = 0, secondsPlayed = 0,
            onCourt = oc, fouledOut = False\<rparr>)
       [(''A-0-0'', 1, ''Player A1'', False), (''A-1-0'', 3, ''Player A2'', True),
        (''A-2-0'', 5, ''Player A3'', True), (''A-3-0'', 7, ''Player A4'', True),
        (''A-4-0'', 9, ''Player A5'', True), (''A-5-0'', 11, ''Player A6'', False),
        (''A-6-0'', 13, ''Player A7'', False), (''A-7'', 20, ''Sub'', False), (''A-7'', 20, ''Sub'', False)]"
    "players_B (players dupPayload) = players_B (players (defaultPayload 0))"
  by (simp_all add: dupPayload_def addPlayer_def setPlayerOnCourt_def team_players_def set_team_players_def
        default_players_A team_str_def Let_def)

text \<open>
  Claim C1, as stated, fails. \<open>HYDRATE\<close> installs whatever payload it carries, here one
  with seven players of team A on court. And when two players of a team share an id, which
  two \<open>ADD_PLAYER\<close> actions in the same millisecond produce, \<open>SET_PLAYER_ON_COURT\<close> tests
  the first of them and changes both: from four players on court it goes to six.
\<close>

theorem court_bound_counterexample:
  "courtBound (defaultPayload 0)
   \<and> \<not> courtBound (reducer 0 (defaultPayload 0) (HYDRATE crowded))
   \<and> courtBound dupPayload
   \<and> \<not> distinctIds dupPayload
   \<and> \<not> courtBound (reducer 0 dupPayload (SET_PLAYER_ON_COURT A ''A-7'' True))"
proof -
  have 1: "\<not> courtBound (reducer 0 (defaultPayload 0) (HYDRATE crowded))"
    by (simp add: courtBound_def crowded_def onCourtCount_def default_players_A)
  have 2: "courtBound dupPayload"
    by (simp add: courtBound_def onCourtCount_def dupPayload_A default_players_B)
  have 3: "\<not> distinctIds dupPayload"
    by (simp add: distinctIds_def dupPayload_A)
  have 4: "\<not> courtBound (reducer 0 dupPayload (SET_PLAYER_ON_COURT A ''A-7'' True))"
    by (simp add: courtBound_def onCourtCount_def setPlayerOnCourt_def team_players_def
          set_team_players_def dupPayload_A Let_def)
  from default_courtBound 1 2 3 4 show ?thesis by simp
qed

text \<open>
  Claim C1, amended. For every payload in which each team has at most five players on court
  and the player ids within each team are distinct, and for every action other than a
  \<open>HYDRATE\<close> whose payload breaks the bound, the payload the reducer returns again has at
  most five players on court in each team.
\<close>

theorem court_bound_preserved:
  assumes "courtBound p" and "distinctIds p" and "\<forall>q. a = HYDRATE q \<longrightarrow> courtBound q"
  shows "courtBound (reducer now p a)"
proof -
  from assms(1) have b: "\<forall>t. onCourtCount (team_players t p) \<le> 5"
    by (simp add: courtBound_iff)
  note d = distinctIds_team [OF assms(2)]
  show ?thesis
  proof (cases a)
    case (ADD_POINTS t points pidOpt)
    with b show ?thesis by (simp add: courtBound_iff onCourtCount_addPoints)
  next
    case (LOAD_GAME home away rules)
    then show ?thesis by (simp add: loadGame_bound)
  next
    case (INC_PLAYER_STAT t pid st amt)
    with b show ?thesis by (simp add: courtBound_iff incPlayerStat_bound)
  next
    case (SET_PLAYER_ON_COURT t pid oc)
    with b d show ?thesis by (simp add: courtBound_iff setPlayerOnCourt_bound)
  next
    case (SUBSTITUTE_PLAYER t outId inId)
    with b d show ?thesis by (simp add: courtBound_iff substitutePlayer_bound)
  next
    case (ADD_PLAYER t nm num oc)
    with b show ?thesis by (simp add: courtBound_iff addPlayer_bound)
  next
    case (UPDATE_PLAYER t pid upd)
    with b d show ?thesis by (simp add: courtBound_iff updatePlayer_bound)
  next
    case (DELETE_PLAYER t pid)
    with b show ?thesis by (simp add: courtBound_iff deletePlayer_bound)
  next
    case TICK
    with assms(1) show ?thesis by (simp add: tick_bound)
  next
    case (HYDRATE q)
    with assms(3) show ?thesis by simp
  qed (use assms(1) in \<open>simp_all add: courtBound_def\<close>)
qed

text \<open>
  On the defaults (five on court in each team): a \<open>HYDRATE\<close> with the defaults, a sixth
  player sent on court by \<open>SET_PLAYER_ON_COURT\<close>, and the same by \<open>UPDATE_PLAYER\<close>.
\<close>

theorem court_bound_preserved_witness:
  "courtBound (defaultPayload 0) \<and> distinctIds (defaultPayload 0)
   \<and> courtBound (reducer 0 (defaultPayload 0) (HYDRATE (defaultPayload 0)))
   \<and> courtBound (reducer 0 (defaultPayload 0) (SET_PLAYER_ON_COURT A ''A-5-0'' True))
   \<and> courtBound (reducer 0 (defaultPayload 0) (UPDATE_PLAYER A ''A-5-0'' returnToCourt))"
  using court_bound_preserved [OF default_courtBound default_distinctIds, of "HYDRATE (defaultPayload 0)" 0]
        court_bound_preserved [OF default_courtBound default_distinctIds, of "SET_PLAYER_ON_COURT A ''A-5-0'' True" 0]
        court_bound_preserved [OF default_courtBound default_distinctIds, of "UPDATE_PLAYER A ''A-5-0'' returnToCourt" 0]
        default_courtBound default_distinctIds
  by simp


section \<open>The team foul counter\<close>







section \<open>Fouled-out players\<close>

lemma fouledOut_players:
  "team_players A fouledOutPayload =
     map (\<lambda>(i, num, nm, oc, fo, fl). \<lparr>id_p = ''A-'' @ i @ ''-0'', number = num, name = nm, imageUrl = None,
            pts = 0, reb = 0, ast = 0, stl = 0, blk = 0, tpm = 0, fls = fl, secondsPlayed = 0,
            onCourt = oc, fouledOut = fo\<rparr>)
       [(''0'', 1, ''Player A1'', False, True, 5), (''1'', 3, ''Player A2'', True, False, 0),
        (''2'', 5, ''Player A3'', True, False, 0), (''3'', 7, ''Player A4'', True, False, 0),
        (''4'', 9, ''Player A5'', True, False, 0), (''5'', 11, ''Player A6'', False, False, 0),
        (''6'', 13, ''Player A7'', False, False, 0)]"
proof -
  have l: "foulLimit (state (defaultPayload 0)) = 5"
    by (simp add: defaultPayload_def defaultState_def)
  have "team_players A fouledOutPayload =
          ((map (incStatOne 5 ''A-0-0'' Fls 1)) ^^ 5) (players_A (players (defaultPayload 0)))"
    unfolding fouledOutPayload_def using iterate_incPlayerStat [where t = A and now = 0 and pid = "''A-0-0''" and st = Fls
            and amt = None and k = 5 and d = "defaultPayload 0"]
    by (simp only: l team_players_def TeamKey.case option.case)
  also have "\<dots> = map (\<lambda>(i, num, nm, oc, fo, fl). \<lparr>id_p = ''A-'' @ i @ ''-0'', number = num, name = nm, imageUrl = None,
            pts = 0, reb = 0, ast = 0, stl = 0, blk = 0, tpm = 0, fls = fl, secondsPlayed = 0,
            onCourt = oc, fouledOut = fo\<rparr>)
       [(''0'', 1, ''Player A1'', False, True, 5), (''1'', 3, ''Player A2'', True, False, 0),
        (''2'', 5, ''Player A3'', True, False, 0), (''3'', 7, ''Player A4'', True, False, 0),
        (''4'', 9, ''Player A5'', True, False, 0), (''5'', 11, ''Player A6'', False, False, 0),
        (''6'', 13, ''Player A7'', False, False, 0)]"
    by (simp add: funpow_five default_players_A incStatOne_def stat_set_def stat_get_def)
  finally show ?thesis .
qed

lemma fouledOut_not_final: "\<not> gameFinal (state fouledOutPayload)"
  unfolding fouledOutPayload_def
  using iterate_incPlayerStat [where t = A and now = 0 and pid = "''A-0-0''" and st = Fls
            and amt = None and k = 5 and d = "defaultPayload 0"]
  by (simp add: defaultPayload_def defaultState_def)

lemma incStatOne_fouledOut: "fouledOut q \<Longrightarrow> incStatOne limit pid st amount q = q"
  by (simp add: incStatOne_def)

lemma setPlayerOnCourt_fouledOut:
  "find (\<lambda>q. id_p q = pid) (team_players t p) = Some target \<Longrightarrow> fouledOut target \<Longrightarrow>
   setPlayerOnCourt p t pid oc = p"
  by (simp add: setPlayerOnCourt_def Let_def)

text \<open>
  Claim C3 does not hold of the reducer. The first player of team A has fouled out and is off
  the court. \<open>ADD_POINTS\<close> naming that player still adds to the player's points, and
  \<open>UPDATE_PLAYER\<close> with \<open>onCourt = true\<close> puts the player back on court: neither case
  tests \<open>fouledOut\<close>, as \<open>INC_PLAYER_STAT\<close>, \<open>SET_PLAYER_ON_COURT\<close> and
  \<open>SUBSTITUTE_PLAYER\<close> do (the two lemmas above are the guards of the first two).
\<close>

theorem fouled_out_player_mutated:
  "playerView ''A-0-0'' (team_players A fouledOutPayload) = [(True, False, 0, 5)]
   \<and> playerView ''A-0-0'' (team_players A (reducer 0 fouledOutPayload (ADD_POINTS A 2 (Some ''A-0-0''))))
       = [(True, False, 2, 5)]
   \<and> playerView ''A-0-0'' (team_players A (reducer 0 fouledOutPayload (UPDATE_PLAYER A ''A-0-0'' returnToCourt)))
       = [(True, True, 0, 5)]"
  by (simp add: playerView_def team_players_addPoints fouledOut_players fouledOut_not_final
        updatePlayer_def returnToCourt_def given_id_def Let_def)


section \<open>Scoring\<close>















section \<open>The tick at the end of a quarter\<close>

text \<open>
  Claim C5. With no overlay active, when \<open>TICK\<close> brings a running game clock to zero (the
  clock runs and shows at most one second): below the last quarter the quarter advances by
  one, the game clock is reset to the full quarter length and the shot clock to its default,
  the shot-clock violation is cleared and both clocks stop; in the last quarter the
  \<open>gameFinal\<close> flag is set instead, the quarter stays, the game clock shows zero and both
  clocks stop.
\<close>

theorem tick_quarter_end:
  assumes "overlayMode (state p) = None"
      and "gameClockRunning (state p)"
      and "gameClockSeconds (state p) \<le> 1"
  shows "(quarter (state p) < totalQuarters (state p) \<longrightarrow>
            quarter (state (reducer now p TICK)) = quarter (state p) + 1
          \<and> gameClockSeconds (state (reducer now p TICK)) = quarterLengthMinutes (state p) * 60
          \<and> shotClockSeconds (state (reducer now p TICK)) = shotClockDefault (state p)
          \<and> \<not> shotViolation (state (reducer now p TICK))
          \<and> \<not> gameClockRunning (state (reducer now p TICK))
          \<and> \<not> shotClockRunning (state (reducer now p TICK))
          \<and> gameFinal (state (reducer now p TICK)) = gameFinal (state p))
       \<and> (totalQuarters (state p) \<le> quarter (state p) \<longrightarrow>
            gameFinal (state (reducer now p TICK))
          \<and> quarter (state (reducer now p TICK)) = quarter (state p)
          \<and> gameClockSeconds (state (reducer now p TICK)) = 0
          \<and> \<not> gameClockRunning (state (reducer now p TICK))
          \<and> \<not> shotClockRunning (state (reducer now p TICK)))"
  using assms by (simp add: tick_def Let_def)

text \<open>
  Scenario C: the defaults with the game clock running at one second, in quarter 1 of 4;
  and the same payload in quarter 4.
\<close>

theorem tick_quarter_end_witness:
  "overlayMode (state scenarioC) = None \<and> gameClockRunning (state scenarioC)
   \<and> gameClockSeconds (state scenarioC) = 1 \<and> quarter (state scenarioC) = 1
   \<and> totalQuarters (state scenarioC) = 4
   \<and> quarter (state (reducer 0 scenarioC TICK)) = 2
   \<and> gameClockSeconds (state (reducer 0 scenarioC TICK)) = 600
   \<and> shotClockSeconds (state (reducer 0 scenarioC TICK)) = 24
   \<and> \<not> gameClockRunning (state (reducer 0 scenarioC TICK))
   \<and> \<not> shotClockRunning (state (reducer 0 scenarioC TICK))
   \<and> quarter (state finalQuarterC) = totalQuarters (state finalQuarterC)
   \<and> gameFinal (state (reducer 0 finalQuarterC TICK))"
  using tick_quarter_end [of scenarioC 0] tick_quarter_end [of finalQuarterC 0]
  by (simp add: scenarioC_def finalQuarterC_def defaultPayload_def defaultState_def)


section \<open>Ending an overlay\<close>

text \<open>
  Claim C6, as stated, fails for the shot clock: with the game clock running and the shot
  clock stopped, a timeout is opened and ended, and the shot clock runs afterwards although
  it did not run before the overlay.
\<close>

theorem timeout_end_shot_clock_counterexample:
  "gameClockRunning (state beforeTimeout)
   \<and> \<not> shotClockRunning (state beforeTimeout)
   \<and> overlayMode (state (reducer 0 beforeTimeout (OPEN_TIMEOUT A 60))) = Some Timeout
   \<and> shotClockRunning (state (reducer 0 (reducer 0 beforeTimeout (OPEN_TIMEOUT A 60)) (END_OVERLAY None)))"
  by (simp add: beforeTimeout_def defaultPayload_def defaultState_def openTimeout_def beginOverlay_def
        endOverlay_def withActionLog_def get_team_def set_team_def Let_def)

text \<open>
  Claim C6, amended. \<open>OPEN_TIMEOUT\<close> records the running flag of the game clock in
  \<open>overlayResumeGame\<close>. Ending a timeout overlay, by \<open>END_OVERLAY\<close> or by the \<open>TICK\<close>
  that brings its countdown to zero, sets the running flags of both the game clock and the
  shot clock to that recorded flag and removes the overlay. Ending a halftime overlay, in
  either way, leaves both running flags as they are and moves the quarter from 2 to 3 when
  \<open>totalQuarters\<close> is at least 3.
\<close>

theorem overlay_end_effect:
  assumes "overlayMode (state p) = Some Timeout"
      and "overlayMode (state h) = Some Halftime"
  shows "gameClockRunning (state (reducer now p (END_OVERLAY m))) = overlayResumeGame (state p)
       \<and> shotClockRunning (state (reducer now p (END_OVERLAY m))) = overlayResumeGame (state p)
       \<and> overlayMode (state (reducer now p (END_OVERLAY m))) = None
       \<and> (overlayRemainingSeconds (state p) \<le> 1 \<longrightarrow>
            gameClockRunning (state (reducer now p TICK)) = overlayResumeGame (state p)
          \<and> shotClockRunning (state (reducer now p TICK)) = overlayResumeGame (state p)
          \<and> overlayMode (state (reducer now p TICK)) = None)
       \<and> overlayMode (state (reducer now q (OPEN_TIMEOUT t s))) = Some Timeout
       \<and> overlayResumeGame (state (reducer now q (OPEN_TIMEOUT t s))) = gameClockRunning (state q)
       \<and> quarter (state (reducer now h (END_OVERLAY m))) =
           (if quarter (state h) = 2 \<and> totalQuarters (state h) \<ge> 3 then 3 else quarter (state h))
       \<and> gameClockRunning (state (reducer now h (END_OVERLAY m))) = gameClockRunning (state h)
       \<and> shotClockRunning (state (reducer now h (END_OVERLAY m))) = shotClockRunning (state h)
       \<and> overlayMode (state (reducer now h (END_OVERLAY m))) = None
       \<and> (overlayRemainingSeconds (state h) \<le> 1 \<longrightarrow>
            quarter (state (reducer now h TICK)) =
              (if quarter (state h) = 2 \<and> totalQuarters (state h) \<ge> 3 then 3 else quarter (state h))
          \<and> gameClockRunning (state (reducer now h TICK)) = gameClockRunning (state h)
          \<and> shotClockRunning (state (reducer now h TICK)) = shotClockRunning (state h)
          \<and> overlayMode (state (reducer now h TICK)) = None)"
  using assms
  by (cases t) (simp_all add: endOverlay_def tick_def openTimeout_def beginOverlay_def
        get_team_def set_team_def Let_def)

text \<open>A timeout opened while the game clock runs, and a halftime opened in quarter 2 of 4.\<close>

theorem overlay_end_effect_witness:
  "overlayMode (state (reducer 0 beforeTimeout (OPEN_TIMEOUT A 60))) = Some Timeout
   \<and> overlayMode (state halftimeOpen) = Some Halftime
   \<and> overlayResumeGame (state (reducer 0 beforeTimeout (OPEN_TIMEOUT A 60)))
   \<and> gameClockRunning (state (reducer 0 (reducer 0 beforeTimeout (OPEN_TIMEOUT A 60)) (END_OVERLAY None)))
   \<and> shotClockRunning (state (reducer 0 (reducer 0 beforeTimeout (OPEN_TIMEOUT A 60)) (END_OVERLAY None)))
   \<and> quarter (state halftimeOpen) = 2
   \<and> quarter (state (reducer 0 halftimeOpen (END_OVERLAY None))) = 3"
  using overlay_end_effect [of "reducer 0 beforeTimeout (OPEN_TIMEOUT A 60)" halftimeOpen 0 None
                               beforeTimeout A 60]
  by (simp add: beforeTimeout_def halftimeOpen_def defaultPayload_def defaultState_def openTimeout_def
        startHalftime_def beginOverlay_def get_team_def set_team_def Let_def)


section \<open>The player milestone highlight\<close>

lemma foldl_max_ge: "(a::int) \<le> foldl (\<lambda>m q. max m (f q)) a xs"
proof (induction xs arbitrary: a)
  case Nil
  show ?case by simp
next
  case (Cons x xs)
  have "a \<le> max a (f x)" by simp
  also have "\<dots> \<le> foldl (\<lambda>m q. max m (f q)) (max a (f x)) xs" by (rule Cons.IH)
  finally show ?case by simp
qed

lemma foldl_max_member: "q \<in> set xs \<Longrightarrow> f q \<le> foldl (\<lambda>m q. max m (f q)) (a::int) xs"
proof (induction xs arbitrary: a)
  case Nil
  then show ?case by simp
next
  case (Cons x xs)
  show ?case
  proof (cases "q = x")
    case True
    have "f x \<le> max a (f x)" by simp
    also have "\<dots> \<le> foldl (\<lambda>m q. max m (f q)) (max a (f x)) xs" by (rule foldl_max_ge)
    finally show ?thesis using True by simp
  next
    case False
    with Cons.prems have "q \<in> set xs" by simp
    from Cons.IH [OF this] show ?thesis by simp
  qed
qed

lemma leagueMax_bound: "q \<in> set (allPlayers p) \<Longrightarrow> f q \<le> leagueMax f p"
  by (simp add: leagueMax_def foldl_max_member)

lemma showAutoPlayerHighlight_fires:
  assumes "showAutoPlayerHighlight p t pid rsn key \<noteq> p"
  shows "canAutoHighlight p" and "key \<notin> set (tvAutoSeen (state p))"
    and "state (showAutoPlayerHighlight p t pid rsn key) =
           (markSeen (state p) key)
             \<lparr>tvAutoCooldownSeconds := HIGHLIGHT_COOLDOWN_SECONDS,
              tvStarPlayer := Some \<lparr>team_sp = t, playerId = pid,
                                    remainingSeconds = PLAYER_HIGHLIGHT_SECONDS,
                                    reason = Some rsn, auto_sp = Some True\<rparr>,
              tvTeamComparison := None\<rparr>"
proof -
  show c: "canAutoHighlight p"
    using assms by (simp add: showAutoPlayerHighlight_def split: if_splits)
  show k: "key \<notin> set (tvAutoSeen (state p))"
    using assms by (simp add: showAutoPlayerHighlight_def split: if_splits)
  from assms c k obtain player where "find (\<lambda>q. id_p q = pid) (team_players t p) = Some player"
    by (cases "find (\<lambda>q. id_p q = pid) (team_players t p)") (simp_all add: showAutoPlayerHighlight_def)
  with c k show "state (showAutoPlayerHighlight p t pid rsn key) =
           (markSeen (state p) key)
             \<lparr>tvAutoCooldownSeconds := HIGHLIGHT_COOLDOWN_SECONDS,
              tvStarPlayer := Some \<lparr>team_sp = t, playerId = pid,
                                    remainingSeconds = PLAYER_HIGHLIGHT_SECONDS,
                                    reason = Some rsn, auto_sp = Some True\<rparr>,
              tvTeamComparison := None\<rparr>"
    by (simp add: showAutoPlayerHighlight_def Let_def)
qed

lemma tryMilestone_fires:
  assumes "tryMilestone p t pid player (f player) (leagueMax f p) milestones statName rsn \<noteq> p"
  shows "canAutoHighlight p
       \<and> firedWith p t pid player statName f milestones
           (tryMilestone p t pid player (f player) (leagueMax f p) milestones statName rsn)"
proof -
  let ?m = "highestMilestone (f player) milestones"
  let ?key = "milestoneKey t player statName ?m"
  from assms have cond: "0 < ?m" "f player = leagueMax f p"
    by (simp_all add: tryMilestone_def Let_def split: if_splits)
  then have eq: "tryMilestone p t pid player (f player) (leagueMax f p) milestones statName rsn
                 = showAutoPlayerHighlight p t pid rsn ?key"
    by (simp add: tryMilestone_def Let_def)
  with assms have ne: "showAutoPlayerHighlight p t pid rsn ?key \<noteq> p" by simp
  note f = showAutoPlayerHighlight_fires [OF ne]
  have bound: "\<forall>q \<in> set (allPlayers p). f q \<le> f player"
    using cond(2) by (simp add: leagueMax_bound)
  have st: "state (tryMilestone p t pid player (f player) (leagueMax f p) milestones statName rsn) =
           (markSeen (state p) ?key)
             \<lparr>tvAutoCooldownSeconds := HIGHLIGHT_COOLDOWN_SECONDS,
              tvStarPlayer := Some \<lparr>team_sp = t, playerId = pid,
                                    remainingSeconds = PLAYER_HIGHLIGHT_SECONDS,
                                    reason = Some rsn, auto_sp = Some True\<rparr>,
              tvTeamComparison := None\<rparr>"
    unfolding eq by (rule f(3))
  show ?thesis
    unfolding firedWith_def Let_def
  proof (intro conjI)
    show "canAutoHighlight p" by (rule f(1))
    show "0 < ?m" by (rule cond(1))
    show "f player = leagueMax f p" by (rule cond(2))
    show "\<forall>q \<in> set (allPlayers p). f q \<le> f player" by (rule bound)
    show "?key \<notin> set (tvAutoSeen (state p))" by (rule f(2))
  qed (simp_all add: st markSeen_def)
qed


lemma canAutoHighlight_fields:
  "canAutoHighlight p \<Longrightarrow>
     tvStarPlayer (state p) = None \<and> tvTeamComparison (state p) = None
     \<and> tvAutoCooldownSeconds (state p) \<le> 0"
  by (simp add: canAutoHighlight_def)

lemma maybeAutoPlayerHighlight_chain:
  assumes "find (\<lambda>q. id_p q = pid) (team_players t p) = Some player"
  shows "maybeAutoPlayerHighlight p t pid =
     (if tryMilestone p t pid player (pts player) (leagueMax pts p) POINTS_MILESTONES ''pts''
           (''High Scorer '' @ show_int (pts player) @ '' PTS'') \<noteq> p
      then tryMilestone p t pid player (pts player) (leagueMax pts p) POINTS_MILESTONES ''pts''
           (''High Scorer '' @ show_int (pts player) @ '' PTS'')
      else if tryMilestone p t pid player (reb player) (leagueMax reb p) REB_MILESTONES ''reb''
           (''Top Rebounder '' @ show_int (reb player) @ '' REB'') \<noteq> p
      then tryMilestone p t pid player (reb player) (leagueMax reb p) REB_MILESTONES ''reb''
           (''Top Rebounder '' @ show_int (reb player) @ '' REB'')
      else if tryMilestone p t pid player (stl player) (leagueMax stl p) STL_MILESTONES ''stl''
           (''Steals Impact '' @ show_int (stl player) @ '' STL'') \<noteq> p
      then tryMilestone p t pid player (stl player) (leagueMax stl p) STL_MILESTONES ''stl''
           (''Steals Impact '' @ show_int (stl player) @ '' STL'')
      else if tryMilestone p t pid player (blk player) (leagueMax blk p) BLK_MILESTONES ''blk''
           (''Rim Protection '' @ show_int (blk player) @ '' BLK'') \<noteq> p
      then tryMilestone p t pid player (blk player) (leagueMax blk p) BLK_MILESTONES ''blk''
           (''Rim Protection '' @ show_int (blk player) @ '' BLK'')
      else if tryMilestone p t pid player (tpm player) (leagueMax tpm p) TPM_MILESTONES ''tpm''
           (''Deep Range '' @ show_int (tpm player) @ '' 3PM'') \<noteq> p
      then tryMilestone p t pid player (tpm player) (leagueMax tpm p) TPM_MILESTONES ''tpm''
           (''Deep Range '' @ show_int (tpm player) @ '' 3PM'')
      else p)"
  by (simp only: maybeAutoPlayerHighlight_def assms option.case Let_def leagueMax_def)

lemma tie_fires:
  "state (maybeAutoPlayerHighlight tiePayload A ''A-0-0'') =
     defaultState\<lparr>tvAutoSeen := [''player:A:A-0-0:pts:10''],
                    tvAutoCooldownSeconds := 22,
                    tvStarPlayer := Some \<lparr>team_sp = A, playerId = ''A-0-0'', remainingSeconds = 10,
                                          reason = Some ''High Scorer 10 PTS'', auto_sp = Some True\<rparr>\<rparr>"
proof -
  define pl where "pl = \<lparr>id_p = ''A-0-0'', number = 1, name = ''Player A1'', imageUrl = None,
            pts = 10, reb = 0, ast = 0, stl = 0, blk = 0, tpm = 0, fls = 0, secondsPlayed = 0,
            onCourt = True, fouledOut = False\<rparr>"
  have st: "state tiePayload = defaultState"
    by (simp add: tiePayload_def defaultPayload_def)
  have fnd: "find (\<lambda>q. id_p q = ''A-0-0'') (team_players A tiePayload) = Some pl"
    by (simp add: team_players_def tiePayload_def default_players_A pl_def)
  have mx: "leagueMax pts tiePayload = 10"
    by (simp add: leagueMax_def allPlayers_def tiePayload_def default_players_A default_players_B)
  have hm: "highestMilestone 10 POINTS_MILESTONES = 10"
    by (simp add: highestMilestone_def POINTS_MILESTONES_def)
  have can: "canAutoHighlight tiePayload"
    by (simp add: canAutoHighlight_def st defaultState_def)
  have key: "milestoneKey A pl ''pts'' 10 = ''player:A:A-0-0:pts:10''"
    by (simp add: milestoneKey_def team_str_def pl_def)
  have pp: "pts pl = 10"
    by (simp add: pl_def)
  have seen: "tvAutoSeen (state tiePayload) = []"
    by (simp add: st defaultState_def)
  have n1: "state (tryMilestone tiePayload A ''A-0-0'' pl (pts pl) (leagueMax pts tiePayload)
                POINTS_MILESTONES ''pts'' (''High Scorer '' @ show_int (pts pl) @ '' PTS'')) =
     defaultState\<lparr>tvAutoSeen := [''player:A:A-0-0:pts:10''],
                    tvAutoCooldownSeconds := 22,
                    tvStarPlayer := Some \<lparr>team_sp = A, playerId = ''A-0-0'', remainingSeconds = 10,
                                          reason = Some ''High Scorer 10 PTS'', auto_sp = Some True\<rparr>\<rparr>"
    by (simp add: pp tryMilestone_def mx hm key showAutoPlayerHighlight_def can seen fnd markSeen_def st
          HIGHLIGHT_COOLDOWN_SECONDS_def PLAYER_HIGHLIGHT_SECONDS_def Let_def,
        simp add: defaultState_def)
  have "state (tryMilestone tiePayload A ''A-0-0'' pl (pts pl) (leagueMax pts tiePayload)
                POINTS_MILESTONES ''pts'' (''High Scorer '' @ show_int (pts pl) @ '' PTS'')) \<noteq> state tiePayload"
    unfolding n1 st by (simp add: defaultState_def)
  then have "tryMilestone tiePayload A ''A-0-0'' pl (pts pl) (leagueMax pts tiePayload)
                POINTS_MILESTONES ''pts'' (''High Scorer '' @ show_int (pts pl) @ '' PTS'') \<noteq> tiePayload"
    by metis
  then have "maybeAutoPlayerHighlight tiePayload A ''A-0-0'' =
      tryMilestone tiePayload A ''A-0-0'' pl (pts pl) (leagueMax pts tiePayload)
                POINTS_MILESTONES ''pts'' (''High Scorer '' @ show_int (pts pl) @ '' PTS'')"
    by (simp only: maybeAutoPlayerHighlight_chain [OF fnd] if_True simp_thms)
  then show ?thesis by (simp only: n1)
qed

text \<open>
  Claim C7, as stated, fails on condition (c): the first players of both teams have 10 points
  each, a tie at the maximum, and the highlight fires for the player of team A.
\<close>

theorem tie_fires_counterexample:
  "scoringView ''A-0-0'' (allPlayers tiePayload) = [(10, 0)]
   \<and> scoringView ''B-0-0'' (allPlayers tiePayload) = [(10, 0)]
   \<and> tvStarPlayer (state tiePayload) = None
   \<and> tvStarPlayer (state (maybeAutoPlayerHighlight tiePayload A ''A-0-0'')) =
        Some \<lparr>team_sp = A, playerId = ''A-0-0'', remainingSeconds = 10,
              reason = Some ''High Scorer 10 PTS'', auto_sp = Some True\<rparr>"
  by (simp add: tie_fires)
     (simp add: scoringView_def allPlayers_def tiePayload_def default_players_A default_players_B,
      simp add: defaultPayload_def defaultState_def)

text \<open>
  Claim C7, amended. When \<open>maybeAutoPlayerHighlight\<close> fires (returns a payload other than
  the one it was given): no star player and no team comparison is showing, the cooldown
  counter is at most zero, the player exists, and for one of the five tracked stats the
  player has reached a milestone, the player's value equals the maximum of that stat over
  all players of the game (a tie does not suppress firing), and the key of stat, team, player
  and milestone is not in the seen list; the result has that key in front of the seen list,
  the cooldown at 22 and the star player set for 10 seconds.
\<close>

theorem player_highlight_fires_only_if:
  assumes "maybeAutoPlayerHighlight p t pid \<noteq> p"
  shows "tvStarPlayer (state p) = None \<and> tvTeamComparison (state p) = None
       \<and> tvAutoCooldownSeconds (state p) \<le> 0
       \<and> (\<exists>player. find (\<lambda>q. id_p q = pid) (team_players t p) = Some player
            \<and> (firedWith p t pid player ''pts'' pts POINTS_MILESTONES (maybeAutoPlayerHighlight p t pid)
               \<or> firedWith p t pid player ''reb'' reb REB_MILESTONES (maybeAutoPlayerHighlight p t pid)
               \<or> firedWith p t pid player ''stl'' stl STL_MILESTONES (maybeAutoPlayerHighlight p t pid)
               \<or> firedWith p t pid player ''blk'' blk BLK_MILESTONES (maybeAutoPlayerHighlight p t pid)
               \<or> firedWith p t pid player ''tpm'' tpm TPM_MILESTONES (maybeAutoPlayerHighlight p t pid)))"
proof -
  from assms obtain player where fnd: "find (\<lambda>q. id_p q = pid) (team_players t p) = Some player"
    by (cases "find (\<lambda>q. id_p q = pid) (team_players t p)") (simp_all add: maybeAutoPlayerHighlight_def)
  define n1 where "n1 = tryMilestone p t pid player (pts player) (leagueMax pts p) POINTS_MILESTONES ''pts''
                         (''High Scorer '' @ show_int (pts player) @ '' PTS'')"
  define n2 where "n2 = tryMilestone p t pid player (reb player) (leagueMax reb p) REB_MILESTONES ''reb''
                         (''Top Rebounder '' @ show_int (reb player) @ '' REB'')"
  define n3 where "n3 = tryMilestone p t pid player (stl player) (leagueMax stl p) STL_MILESTONES ''stl''
                         (''Steals Impact '' @ show_int (stl player) @ '' STL'')"
  define n4 where "n4 = tryMilestone p t pid player (blk player) (leagueMax blk p) BLK_MILESTONES ''blk''
                         (''Rim Protection '' @ show_int (blk player) @ '' BLK'')"
  define n5 where "n5 = tryMilestone p t pid player (tpm player) (leagueMax tpm p) TPM_MILESTONES ''tpm''
                         (''Deep Range '' @ show_int (tpm player) @ '' 3PM'')"
  have r: "maybeAutoPlayerHighlight p t pid =
             (if n1 \<noteq> p then n1 else if n2 \<noteq> p then n2 else if n3 \<noteq> p then n3
              else if n4 \<noteq> p then n4 else if n5 \<noteq> p then n5 else p)"
    unfolding n1_def n2_def n3_def n4_def n5_def by (rule maybeAutoPlayerHighlight_chain [OF fnd])
  consider (1) "n1 \<noteq> p" "maybeAutoPlayerHighlight p t pid = n1"
    | (2) "n2 \<noteq> p" "maybeAutoPlayerHighlight p t pid = n2"
    | (3) "n3 \<noteq> p" "maybeAutoPlayerHighlight p t pid = n3"
    | (4) "n4 \<noteq> p" "maybeAutoPlayerHighlight p t pid = n4"
    | (5) "n5 \<noteq> p" "maybeAutoPlayerHighlight p t pid = n5"
    using assms unfolding r by (auto split: if_splits)
  then have "canAutoHighlight p
       \<and> (firedWith p t pid player ''pts'' pts POINTS_MILESTONES (maybeAutoPlayerHighlight p t pid)
               \<or> firedWith p t pid player ''reb'' reb REB_MILESTONES (maybeAutoPlayerHighlight p t pid)
               \<or> firedWith p t pid player ''stl'' stl STL_MILESTONES (maybeAutoPlayerHighlight p t pid)
               \<or> firedWith p t pid player ''blk'' blk BLK_MILESTONES (maybeAutoPlayerHighlight p t pid)
               \<or> firedWith p t pid player ''tpm'' tpm TPM_MILESTONES (maybeAutoPlayerHighlight p t pid))"
  proof cases
    case 1
    from tryMilestone_fires [OF 1(1) [unfolded n1_def]] show ?thesis
      unfolding 1(2) n1_def by blast
  next
    case 2
    from tryMilestone_fires [OF 2(1) [unfolded n2_def]] show ?thesis
      unfolding 2(2) n2_def by blast
  next
    case 3
    from tryMilestone_fires [OF 3(1) [unfolded n3_def]] show ?thesis
      unfolding 3(2) n3_def by blast
  next
    case 4
    from tryMilestone_fires [OF 4(1) [unfolded n4_def]] show ?thesis
      unfolding 4(2) n4_def by blast
  next
    case 5
    from tryMilestone_fires [OF 5(1) [unfolded n5_def]] show ?thesis
      unfolding 5(2) n5_def by blast
  qed
  with fnd canAutoHighlight_fields [of p] show ?thesis by blast
qed

text \<open>The tie payload: the highlight fires for the first player of team A.\<close>

theorem player_highlight_fires_only_if_witness:
  "maybeAutoPlayerHighlight tiePayload A ''A-0-0'' \<noteq> tiePayload
   \<and> tvStarPlayer (state tiePayload) = None \<and> tvTeamComparison (state tiePayload) = None
   \<and> tvAutoCooldownSeconds (state tiePayload) \<le> 0
   \<and> tvAutoCooldownSeconds (state (maybeAutoPlayerHighlight tiePayload A ''A-0-0'')) = 22"
proof -
  have "state (maybeAutoPlayerHighlight tiePayload A ''A-0-0'') \<noteq> state tiePayload"
    by (simp add: tie_fires) (simp add: tiePayload_def defaultPayload_def defaultState_def)
  then have ne: "maybeAutoPlayerHighlight tiePayload A ''A-0-0'' \<noteq> tiePayload"
    by metis
  from player_highlight_fires_only_if [OF ne] ne show ?thesis
    by (simp add: tie_fires)
qed


section \<open>The codec\<close>

lemma mergeTeam_encodeTeam [simp]: "mergeTeam b (Some (encodeTeam t)) = t"
  by (simp add: mergeTeam_def encodeTeam_def or_base_def)

lemma mergeState_encodeState [simp]: "mergeState b (encodeState s) = s"
  by (simp add: mergeState_def encodeState_def or_base_def)

lemma mergePlayer_encodePlayer: "imageUrl b = None \<Longrightarrow> mergePlayer b (encodePlayer q) = q"
  by (cases "imageUrl q") (simp_all add: mergePlayer_def encodePlayer_def or_base_def)

lemma normalizePlayersFrom_encode:
  assumes "fallback \<noteq> []" and "\<forall>b \<in> set fallback. imageUrl b = None"
  shows "normalizePlayersFrom idx (map encodePlayer xs) fallback = xs"
proof (induction xs arbitrary: idx)
  case Nil
  show ?case by simp
next
  case (Cons q xs)
  have "(if idx < length fallback then fallback ! idx else hd fallback) \<in> set fallback"
    using assms(1) by simp
  with assms(2) have "imageUrl (if idx < length fallback then fallback ! idx else hd fallback) = None"
    by blast
  with Cons show ?case by (simp add: mergePlayer_encodePlayer)
qed

lemma createPlayerStateFrom_imageUrl:
  "\<forall>b \<in> set (createPlayerStateFrom now t idx ps). imageUrl b = None"
  by (induction ps arbitrary: idx) auto

lemma default_fallback:
  "players_A (players (defaultPayload now)) \<noteq> []"
  "players_B (players (defaultPayload now)) \<noteq> []"
  "\<forall>b \<in> set (players_A (players (defaultPayload now))). imageUrl b = None"
  "\<forall>b \<in> set (players_B (players (defaultPayload now))). imageUrl b = None"
  by (simp_all add: defaultPayload_def createPlayerState_def createPlayerStateFrom_imageUrl
        DEFAULT_PLAYERS_A_def DEFAULT_PLAYERS_B_def)

lemma isState_encodeState [simp]: "isState (Some (encodeState s))"
  by (simp add: isState_def encodeState_def)

lemma parse_serialize:
  "parsePayload now' (Some (serializePayload now p)) = Some (p\<lparr>updatedAt := now\<rparr>)"
  by (simp add: parsePayload_def serializePayload_def encodePayload_def normalizePlayers_def
        or_base_def Let_def normalizePlayersFrom_encode default_fallback)

text \<open>
  Claim C8, as stated, fails: \<open>savePayload\<close> stamps the payload with the time of the write,
  so the defaults created at time 0 and saved at time 5 do not decode to themselves.
\<close>

theorem roundtrip_counterexample:
  "parsePayload 7 (Some (serializePayload 5 (defaultPayload 0))) \<noteq> Some (defaultPayload 0)"
proof -
  have "updatedAt ((defaultPayload 0)\<lparr>updatedAt := 5\<rparr>) \<noteq> updatedAt (defaultPayload 0)"
    by (simp add: defaultPayload_def)
  then have "(defaultPayload 0)\<lparr>updatedAt := 5\<rparr> \<noteq> defaultPayload 0"
    by metis
  then show ?thesis by (simp add: parse_serialize)
qed

text \<open>
  Claim C8, amended. For every payload, decoding the text that \<open>savePayload\<close> writes gives
  the payload with \<open>updatedAt\<close> replaced by the time of the write, and nothing else
  changed. \<open>parsePayload\<close> gives no payload for a missing text, for a text that does not
  parse, and for a document whose \<open>state\<close> fails \<open>isState\<close>.
\<close>

theorem roundtrip_stamped:
  "parsePayload now' (Some (serializePayload now p)) = Some (p\<lparr>updatedAt := now\<rparr>)
   \<and> parsePayload now' None = None
   \<and> parsePayload now' (Some Unparseable) = None
   \<and> (\<not> isState (state_j d) \<longrightarrow> parsePayload now' (Some (Parsed d)) = None)"
proof (intro conjI impI)
  show "parsePayload now' (Some (serializePayload now p)) = Some (p\<lparr>updatedAt := now\<rparr>)"
    by (rule parse_serialize)
  show "parsePayload now' None = None"
    by (simp add: parsePayload_def)
  show "parsePayload now' (Some Unparseable) = None"
    by (simp add: parsePayload_def)
  show "parsePayload now' (Some (Parsed d)) = None" if "\<not> isState (state_j d)"
    using that by (cases "state_j d") (simp_all add: parsePayload_def)
qed

text \<open>A document without any field, and the defaults saved at time 5.\<close>

theorem roundtrip_stamped_witness:
  "\<not> isState (state_j emptyDocument)
   \<and> parsePayload 7 (Some (Parsed emptyDocument)) = None
   \<and> parsePayload 7 (Some (serializePayload 5 (defaultPayload 0))) = Some ((defaultPayload 0)\<lparr>updatedAt := 5\<rparr>)"
  using roundtrip_stamped [of 7 5 "defaultPayload 0" emptyDocument]
  by (simp add: emptyDocument_def isState_def)

section \<open>Hydration from the store\<close>

text \<open>
  Claim C9. On a storage event for one of the two keys, the listener dispatches
  \<open>HYDRATE\<close> with the decoded payload exactly when the new value decodes and its
  \<open>updatedAt\<close> is strictly greater than the \<open>updatedAt\<close> the instance holds, and it
  dispatches nothing otherwise; so the instance afterwards holds the decoded payload in the
  first case and its own payload in every other case.
\<close>

theorem storage_event_hydrates:
  assumes "key_ev ev = Some STORAGE_KEY_V3 \<or> key_ev ev = Some STORAGE_KEY_V5"
  shows "(onStorage now held ev = Some (HYDRATE ext)
            \<longleftrightarrow> parsePayload now (newValue_ev ev) = Some ext \<and> updatedAt held < updatedAt ext)
       \<and> (onStorage now held ev = None
            \<longleftrightarrow> (\<forall>e. parsePayload now (newValue_ev ev) = Some e \<longrightarrow> updatedAt e \<le> updatedAt held))
       \<and> storageStep now held ev =
           (case parsePayload now (newValue_ev ev) of
              None \<Rightarrow> held
            | Some e \<Rightarrow> if updatedAt held < updatedAt e then e else held)"
  using assms
  by (auto simp add: onStorage_def storageStep_def STORAGE_KEY_V3_def STORAGE_KEY_V5_def
        parsePayload_def split: option.splits)

text \<open>
  Scenario D: a write stamped 120 reaches an observer that holds 150 and is rejected; a write
  stamped 150 reaches an observer that holds 100 and replaces its payload.
\<close>

theorem storage_event_hydrates_witness:
  "(key_ev (eventD 120) = Some STORAGE_KEY_V3 \<or> key_ev (eventD 120) = Some STORAGE_KEY_V5)
   \<and> updatedAt (heldAt 150) = 150
   \<and> parsePayload 9 (newValue_ev (eventD 120)) = Some ((defaultPayload 0)\<lparr>updatedAt := 120\<rparr>)
   \<and> storageStep 9 (heldAt 150) (eventD 120) = heldAt 150
   \<and> updatedAt (heldAt 100) = 100
   \<and> storageStep 9 (heldAt 100) (eventD 150) = (defaultPayload 0)\<lparr>updatedAt := 150\<rparr>"
  using storage_event_hydrates [of "eventD 120" 9 "heldAt 150"]
        storage_event_hydrates [of "eventD 150" 9 "heldAt 100"]
  by (simp add: eventD_def heldAt_def parse_serialize)


section \<open>Reopening a finished game\<close>

text \<open>
  Claim C10. In a payload whose \<open>gameFinal\<close> flag is set, \<open>START_GAME\<close> (when no overlay
  is active), \<open>RESET_QUARTER\<close>, \<open>PREV_QUARTER\<close> and \<open>NEXT_QUARTER\<close> each give a payload
  whose \<open>gameFinal\<close> flag is cleared.
\<close>

theorem final_flag_cleared:
  assumes "gameFinal (state p)"
  shows "(overlayMode (state p) = None \<longrightarrow> \<not> gameFinal (state (reducer now p START_GAME)))
       \<and> \<not> gameFinal (state (reducer now p RESET_QUARTER))
       \<and> \<not> gameFinal (state (reducer now p PREV_QUARTER))
       \<and> \<not> gameFinal (state (reducer now p NEXT_QUARTER))"
  using assms by (simp add: resetQuarter_def Let_def)

text \<open>The payload after \<open>FINISH_GAME\<close> on the defaults is final and has no overlay.\<close>

theorem final_flag_cleared_witness:
  "gameFinal (state (reducer 0 (defaultPayload 0) FINISH_GAME))
   \<and> overlayMode (state (reducer 0 (defaultPayload 0) FINISH_GAME)) = None
   \<and> \<not> gameFinal (state (reducer 0 (reducer 0 (defaultPayload 0) FINISH_GAME) START_GAME))
   \<and> \<not> gameFinal (state (reducer 0 (reducer 0 (defaultPayload 0) FINISH_GAME) RESET_QUARTER))
   \<and> \<not> gameFinal (state (reducer 0 (reducer 0 (defaultPayload 0) FINISH_GAME) PREV_QUARTER))
   \<and> \<not> gameFinal (state (reducer 0 (reducer 0 (defaultPayload 0) FINISH_GAME) NEXT_QUARTER))"
  using final_flag_cleared [of "reducer 0 (defaultPayload 0) FINISH_GAME" 0]
  by (simp add: defaultPayload_def defaultState_def)

end
